theory Spec2Isabelle
  imports Complex_Main "HOL-Library.Char_ord" "HOL-Library.List_Lexorder"
begin

text \<open>
  The server of a personal budgeting dashboard: REST handlers over three SQLite tables
  (categories, transactions, settings). The theory embeds the handlers of the transaction
  routes, the settings routes and the export and import routes as functions from a request
  and a store to a reply and a store, together with the zod schemas that validate the request
  bodies and the part of the JavaScript \<open>Date\<close> object that the recurring generation uses,
  and proves the properties of the recurring projection, of the scoped group update and
  delete, of validation, of the settings record and of export followed by import.
\<close>

section \<open>Request bodies: JSON values\<close>

text \<open>
  A request body is a parsed JSON value. Numbers are JavaScript numbers; only their sign,
  their integrality and their comparison with small constants are ever inspected, so they are
  modelled as reals. Strings are compared the way JavaScript compares them, code unit by code
  unit, which on the ASCII strings used for dates is the lexicographic order of
  \<open>List_Lexorder\<close> over \<open>Char_ord\<close>.
\<close>

datatype json =
    JNull
  | JBool bool
  | JNum real
  | JStr string
  | JArr "json list"
  | JObj "(string \<times> json) list"

text \<open>Property lookup in a parsed object: \<open>JSON.parse\<close> keeps the last duplicate key.\<close>

definition field :: "(string \<times> json) list \<Rightarrow> string \<Rightarrow> json option" where
  "field kvs k = map_of (rev kvs) k"

text \<open>A zod issue is identified by its path; the empty path is the body itself.\<close>

datatype path_elem = Key string | Idx nat

type_synonym issue = "path_elem list"

definition failed :: "string \<Rightarrow> 'a option \<Rightarrow> issue list" where
  "failed k r = (case r of None \<Rightarrow> [[Key k]] | Some _ \<Rightarrow> [])"

text \<open>A property that may be absent (\<open>undefined\<close>), \<open>null\<close>, or a value.\<close>

datatype 'a nullable = Undefined | Null | Value 'a

datatype tx_type = Expense | Income | CcPayment

section \<open>zod schemas of the transaction routes\<close>

definition isDigit :: "char \<Rightarrow> bool" where
  "isDigit c = (CHR ''0'' \<le> c \<and> c \<le> CHR ''9'')"

text \<open>The regular expression \<open>/^\d{4}-\d{2}-\d{2}$/\<close>.\<close>

definition dateRegex :: "string \<Rightarrow> bool" where
  "dateRegex s =
     (length s = 10 \<and> list_all isDigit (take 4 s) \<and> s ! 4 = CHR ''-'' \<and>
      list_all isDigit (take 2 (drop 5 s)) \<and> s ! 7 = CHR ''-'' \<and>
      list_all isDigit (drop 8 s))"

text \<open>\<open>z.string().regex(/^\d{4}-\d{2}-\d{2}$/)\<close>\<close>

definition zDate :: "json option \<Rightarrow> string option" where
  "zDate v = (case v of Some (JStr s) \<Rightarrow> (if dateRegex s then Some s else None) | _ \<Rightarrow> None)"

text \<open>\<open>z.number().positive()\<close>\<close>

definition zPositive :: "json option \<Rightarrow> real option" where
  "zPositive v = (case v of Some (JNum x) \<Rightarrow> (if 0 < x then Some x else None) | _ \<Rightarrow> None)"

text \<open>\<open>z.string().nullable().optional()\<close>\<close>

definition zNullableString :: "json option \<Rightarrow> string nullable option" where
  "zNullableString v =
     (case v of None \<Rightarrow> Some Undefined
      | Some JNull \<Rightarrow> Some Null
      | Some (JStr s) \<Rightarrow> Some (Value s)
      | _ \<Rightarrow> None)"

text \<open>\<open>z.string().min(1)\<close>\<close>

definition zNonEmpty :: "json option \<Rightarrow> string option" where
  "zNonEmpty v = (case v of Some (JStr s) \<Rightarrow> (if 1 \<le> length s then Some s else None) | _ \<Rightarrow> None)"

text \<open>\<open>z.enum(['expense', 'income', 'cc_payment'])\<close>\<close>

definition zTxType :: "json option \<Rightarrow> tx_type option" where
  "zTxType v =
     (case v of Some (JStr s) \<Rightarrow>
        (if s = ''expense'' then Some Expense
         else if s = ''income'' then Some Income
         else if s = ''cc_payment'' then Some CcPayment
         else None)
      | _ \<Rightarrow> None)"

text \<open>\<open>z.boolean().optional().default(false)\<close>\<close>

definition zBoolDefaultFalse :: "json option \<Rightarrow> bool option" where
  "zBoolDefaultFalse v =
     (case v of None \<Rightarrow> Some False | Some (JBool b) \<Rightarrow> Some b | _ \<Rightarrow> None)"

text \<open>The output of \<open>transactionSchema\<close>.\<close>

record tx_data =
  d_date :: string
  d_amount :: real
  d_categoryId :: "string nullable"
  d_description :: string
  d_type :: tx_type
  d_isFixed :: bool
  d_groupId :: "string nullable"

definition transactionSchema :: "json \<Rightarrow> issue list + tx_data" where
  "transactionSchema j =
     (case j of
        JObj kvs \<Rightarrow>
          (let dt = zDate (field kvs ''date'');
               am = zPositive (field kvs ''amount'');
               ca = zNullableString (field kvs ''categoryId'');
               de = zNonEmpty (field kvs ''description'');
               ty = zTxType (field kvs ''type'');
               fx = zBoolDefaultFalse (field kvs ''isFixed'');
               gr = zNullableString (field kvs ''groupId'')
           in case (dt, am, ca, de, ty, fx, gr) of
                (Some d, Some a, Some c, Some ds, Some t, Some f, Some g) \<Rightarrow>
                  Inr \<lparr>d_date = d, d_amount = a, d_categoryId = c, d_description = ds,
                       d_type = t, d_isFixed = f, d_groupId = g\<rparr>
              | _ \<Rightarrow>
                  Inl (failed ''date'' dt @ failed ''amount'' am @ failed ''categoryId'' ca @
                       failed ''description'' de @ failed ''type'' ty @ failed ''isFixed'' fx @
                       failed ''groupId'' gr))
      | _ \<Rightarrow> Inl [[]])"

section \<open>The database\<close>

text \<open>
  Rows of the three SQLite tables. \<open>createdAt\<close> and \<open>updatedAt\<close> are filled by the column
  default \<open>datetime('now')\<close> on insert.
\<close>

record transaction =
  txId :: string
  date :: string
  amount :: real
  categoryId :: "string option"
  description :: string
  ttype :: tx_type
  isFixed :: bool
  groupId :: "string option"
  createdAt :: string
  updatedAt :: string

datatype period = Weekly | Monthly

record category =
  catId :: string
  name :: string
  weeklyBudget :: real
  cperiod :: period
  color :: string
  catCreatedAt :: string
  catUpdatedAt :: string

record settingsRow =
  setId :: int
  monthlyIncome :: real
  currency :: string
  showFixedCosts :: bool
  checkingBalance :: real
  creditCardBalance :: real
  balanceAsOf :: string
  setUpdatedAt :: string

record store =
  categories :: "category list"
  transactions :: "transaction list"
  settings :: "settingsRow list"

text \<open>
  A calendar day: the year, the month counted from 0 as \<open>getMonth\<close> does, and the day of the
  month.
\<close>

type_synonym civil = "int \<times> int \<times> int"

text \<open>
  What a handler reads from its surroundings. The server's time zone is given by the offset,
  in minutes ahead of UTC (negative west of Greenwich), that the engine uses to turn local
  midnight of a calendar day into an instant; a zone with daylight saving time has different
  offsets on different days. The clock is given as \<open>new Date().toISOString()\<close> and as
  SQLite's \<open>datetime('now')\<close> print it, and is read as one value for the whole request. The
  successive results of \<open>crypto.randomUUID()\<close> within one request are given by a function
  of the call index.
\<close>

record env =
  tzOffset :: "civil \<Rightarrow> int"
  nowIso :: string
  nowSql :: string

type_synonym uuids = "nat \<Rightarrow> string"

datatype err_code = VALIDATION_ERROR | NOT_FOUND | SERVER_ERROR

text \<open>
  A reply is the HTTP status with the payload of \<open>data\<close>, or the status with the error code
  and the paths of the zod issues. An exception that escapes a handler is answered by the
  framework with status 500.
\<close>

datatype 'a reply = Success nat 'a | Failure nat err_code "issue list"

text \<open>
  \<open>db.insert(schema.transactions).values(row).run()\<close>: the primary key makes the insert
  throw when the id is already present.
\<close>

definition insertTransaction :: "transaction \<Rightarrow> transaction list \<Rightarrow> transaction list option" where
  "insertTransaction row tbl =
     (if txId row \<in> set (map txId tbl) then None else Some (tbl @ [row]))"

text \<open>\<open>db.select().from(schema.transactions).where(eq(schema.transactions.id, id)).get()\<close>\<close>

definition getTransaction :: "string \<Rightarrow> transaction list \<Rightarrow> transaction option" where
  "getTransaction i tbl = find (\<lambda>r. txId r = i) tbl"

text \<open>\<open>x || null\<close> on an optional nullable string: the empty string is falsy.\<close>

definition orNull :: "string nullable \<Rightarrow> string option" where
  "orNull v = (case v of Value s \<Rightarrow> (if s = [] then None else Some s) | _ \<Rightarrow> None)"

section \<open>JavaScript dates\<close>

text \<open>
  A \<open>Date\<close> that stands at local midnight is modelled by its local calendar fields.
\<close>

definition isLeap :: "int \<Rightarrow> bool" where
  "isLeap y = (y mod 4 = 0 \<and> (y mod 100 \<noteq> 0 \<or> y mod 400 = 0))"

definition daysInMonth :: "int \<Rightarrow> int \<Rightarrow> int" where
  "daysInMonth y m =
     (if m = 1 then (if isLeap y then 29 else 28)
      else if m = 3 \<or> m = 5 \<or> m = 8 \<or> m = 10 then 30
      else 31)"

text \<open>
  Day \<open>d\<close> of month \<open>m\<close> (in 0..11) of year \<open>y\<close>, where a day outside the month rolls
  into the neighbouring months: day 0 is the last day of the month before.
\<close>

function normDay :: "int \<Rightarrow> int \<Rightarrow> int \<Rightarrow> civil" where
  "normDay y m d =
     (if d < 1 then
        (if m \<le> 0 then normDay (y - 1) 11 (d + 31)
         else normDay y (m - 1) (d + daysInMonth y (m - 1)))
      else if daysInMonth y m < d then
        (if 11 \<le> m then normDay (y + 1) 0 (d - 31)
         else normDay y (m + 1) (d - daysInMonth y m))
      else (y, m, d))"
  by pat_completeness auto
termination
  by (relation "measure (\<lambda>(y, m, d). if d < 1 then nat (32 - d) else nat d)")
     (auto simp: daysInMonth_def)

declare normDay.simps [simp del]

text \<open>
  \<open>MakeDay\<close> of the language standard: months outside 0..11 carry into the year first.
\<close>

definition makeDay :: "int \<Rightarrow> int \<Rightarrow> int \<Rightarrow> civil" where
  "makeDay y m d = normDay (y + m div 12) (m mod 12) d"

text \<open>
  \<open>new Date(year, month, day)\<close>: a year from 0 to 99 means 1900 + year.
\<close>

definition newDate :: "int \<Rightarrow> int \<Rightarrow> int \<Rightarrow> civil" where
  "newDate y m d = makeDay (if 0 \<le> y \<and> y \<le> 99 then 1900 + y else y) m d"

definition getFullYear :: "civil \<Rightarrow> int" where "getFullYear c = fst c"
definition getMonth :: "civil \<Rightarrow> int" where "getMonth c = fst (snd c)"
definition getDate :: "civil \<Rightarrow> int" where "getDate c = snd (snd c)"

definition digitVal :: "char \<Rightarrow> int" where
  "digitVal c = int (of_char c) - 48"

definition numberOf :: "string \<Rightarrow> int" where
  "numberOf s = foldl (\<lambda>a c. 10 * a + digitVal c) 0 s"

text \<open>
  \<open>new Date(s + 'T00:00:00')\<close> for a string that matched the date pattern: local midnight of
  that day. The engine (V8) accepts months 1 to 12 and days 1 to 31 and lets a day beyond the
  month's end roll over; anything else is an invalid date (\<open>None\<close>).
\<close>

definition yearOf :: "string \<Rightarrow> int" where "yearOf s = numberOf (take 4 s)"
definition monthOf :: "string \<Rightarrow> int" where "monthOf s = numberOf (take 2 (drop 5 s))"
definition dayOf :: "string \<Rightarrow> int" where "dayOf s = numberOf (drop 8 s)"

definition parseLocalDate :: "string \<Rightarrow> civil option" where
  "parseLocalDate s =
     (let y = yearOf s; mo = monthOf s; d = dayOf s
      in if 1 \<le> mo \<and> mo \<le> 12 \<and> 1 \<le> d \<and> d \<le> 31 then Some (makeDay y (mo - 1) d) else None)"

definition digitChar :: "nat \<Rightarrow> char" where
  "digitChar n = ''0123456789'' ! (n mod 10)"

text \<open>The last \<open>k\<close> decimal digits of \<open>n\<close>, padded with zeros.\<close>

fun pad :: "nat \<Rightarrow> nat \<Rightarrow> string" where
  "pad 0 n = []"
| "pad (Suc k) n = pad k (n div 10) @ [digitChar (n mod 10)]"

text \<open>
  The date part of \<open>toISOString()\<close>: four digits for the years 0 to 9999, a sign and six
  digits otherwise.
\<close>

definition isoDate :: "civil \<Rightarrow> string" where
  "isoDate c =
     (case c of (y, m, d) \<Rightarrow>
        (if 0 \<le> y \<and> y \<le> 9999 then pad 4 (nat y)
         else (if y < 0 then ''-'' else ''+'') @ pad 6 (nat \<bar>y\<bar>))
        @ ''-'' @ pad 2 (nat (m + 1)) @ ''-'' @ pad 2 (nat d))"

text \<open>
  \<open>date.toISOString().split('T')[0]\<close> for a date at local midnight of the day \<open>c\<close>: the
  calendar day of that instant in UTC. The instant lies as many minutes before local midnight
  as the zone is ahead of UTC on that day.
\<close>

definition toISODate :: "env \<Rightarrow> civil \<Rightarrow> string" where
  "toISODate e c =
     (case c of (y, m, d) \<Rightarrow> isoDate (normDay y m (d + (- tzOffset e c) div 1440)))"

section \<open>POST /transactions and POST /transactions/recurring\<close>

definition postTransaction :: "env \<Rightarrow> uuids \<Rightarrow> json \<Rightarrow> store \<Rightarrow> transaction reply \<times> store" where
  "postTransaction e rand body s =
     (case transactionSchema body of
        Inl issues \<Rightarrow> (Failure 400 VALIDATION_ERROR issues, s)
      | Inr dat \<Rightarrow>
          (let newTransaction =
                 \<lparr>txId = rand 0, date = d_date dat, amount = d_amount dat,
                  categoryId = orNull (d_categoryId dat), description = d_description dat,
                  ttype = d_type dat, isFixed = d_isFixed dat, groupId = orNull (d_groupId dat),
                  createdAt = nowSql e, updatedAt = nowSql e\<rparr>
           in case insertTransaction newTransaction (transactions s) of
                None \<Rightarrow> (Failure 500 SERVER_ERROR [], s)
              | Some tbl \<Rightarrow>
                  (case getTransaction (rand 0) tbl of
                     None \<Rightarrow> (Failure 500 SERVER_ERROR [], s\<lparr>transactions := tbl\<rparr>)
                   | Some created \<Rightarrow> (Success 201 created, s\<lparr>transactions := tbl\<rparr>))))"

text \<open>\<open>z.number().int().min(1).max(24).default(12)\<close>\<close>

definition zMonths :: "json option \<Rightarrow> nat option" where
  "zMonths v =
     (case v of
        None \<Rightarrow> Some 12
      | Some (JNum x) \<Rightarrow>
          (if of_int \<lfloor>x\<rfloor> = x \<and> 1 \<le> x \<and> x \<le> 24 then Some (nat \<lfloor>x\<rfloor>) else None)
      | _ \<Rightarrow> None)"

text \<open>
  The issues of \<open>months\<close>: one when it is not a number, otherwise one for each of the checks
  \<open>int\<close>, \<open>min(1)\<close> and \<open>max(24)\<close> that fails.
\<close>

definition zMonthsIssues :: "json option \<Rightarrow> issue list" where
  "zMonthsIssues v =
     (case v of
        None \<Rightarrow> []
      | Some (JNum x) \<Rightarrow>
          (if of_int \<lfloor>x\<rfloor> = x then [] else [[Key ''months'']]) @
          (if 1 \<le> x then [] else [[Key ''months'']]) @
          (if x \<le> 24 then [] else [[Key ''months'']])
      | _ \<Rightarrow> [[Key ''months'']])"

definition recurringRequestSchema :: "json \<Rightarrow> issue list + (tx_data \<times> nat)" where
  "recurringRequestSchema j =
     (case j of
        JObj kvs \<Rightarrow>
          (let base = (case field kvs ''base'' of
                         None \<Rightarrow> Inl [[]]
                       | Some b \<Rightarrow> transactionSchema b);
               months = zMonths (field kvs ''months'')
           in case (base, months) of
                (Inr b, Some n) \<Rightarrow> Inr (b, n)
              | (Inr b, None) \<Rightarrow> Inl (zMonthsIssues (field kvs ''months''))
              | (Inl is, _) \<Rightarrow>
                  Inl (map ((#) (Key ''base'')) is @ zMonthsIssues (field kvs ''months'')))
      | _ \<Rightarrow> Inl [[]])"

text \<open>The date computed in iteration \<open>i\<close> of the loop, before it is printed.\<close>

definition projectDate :: "civil \<Rightarrow> int \<Rightarrow> int \<Rightarrow> civil" where
  "projectDate baseDate baseDay i =
     (let targetYear = getFullYear baseDate;
          targetMonth = getMonth baseDate + i;
          lastDayOfMonth = getDate (newDate targetYear (targetMonth + 1) 0);
          actualDay = min baseDay lastDayOfMonth
      in newDate targetYear targetMonth actualDay)"

text \<open>
  The loop \<open>for (let i = 0; i < months; i++)\<close>, with \<open>k = months - i\<close> iterations left.
  The result is \<open>None\<close> when an exception ended the loop: \<open>toISOString\<close> throws on an
  invalid date, the insert throws on a duplicate id. Rows inserted before that remain.
\<close>

definition recurringRow ::
  "env \<Rightarrow> uuids \<Rightarrow> tx_data \<Rightarrow> string \<Rightarrow> civil \<Rightarrow> nat \<Rightarrow> transaction" where
  "recurringRow e rand base gid bd i =
     \<lparr>txId = rand (Suc i),
      date = toISODate e (projectDate bd (getDate bd) (int i)),
      amount = d_amount base, categoryId = orNull (d_categoryId base),
      description = d_description base, ttype = d_type base,
      isFixed = True, groupId = Some gid,
      createdAt = nowSql e, updatedAt = nowSql e\<rparr>"

fun recurringLoop ::
  "env \<Rightarrow> uuids \<Rightarrow> tx_data \<Rightarrow> string \<Rightarrow> civil option \<Rightarrow> nat \<Rightarrow> nat \<Rightarrow>
   transaction list \<Rightarrow> transaction list \<Rightarrow> transaction list option \<times> transaction list"
where
  "recurringLoop e rand base gid baseDate 0 i tbl created = (Some created, tbl)"
| "recurringLoop e rand base gid baseDate (Suc k) i tbl created =
     (case baseDate of
        None \<Rightarrow> (None, tbl)
      | Some bd \<Rightarrow>
          (let tx = recurringRow e rand base gid bd i
           in case insertTransaction tx tbl of
                None \<Rightarrow> (None, tbl)
              | Some tbl' \<Rightarrow>
                  recurringLoop e rand base gid baseDate k (Suc i) tbl'
                    (case getTransaction (rand (Suc i)) tbl' of
                       None \<Rightarrow> created
                     | Some row \<Rightarrow> created @ [row])))"

definition postRecurring ::
  "env \<Rightarrow> uuids \<Rightarrow> json \<Rightarrow> store \<Rightarrow> transaction list reply \<times> store" where
  "postRecurring e rand body s =
     (case recurringRequestSchema body of
        Inl issues \<Rightarrow> (Failure 400 VALIDATION_ERROR issues, s)
      | Inr (base, months) \<Rightarrow>
          (let groupId = rand 0;
               baseDate = parseLocalDate (d_date base)
           in case recurringLoop e rand base groupId baseDate months 0 (transactions s) [] of
                (None, tbl) \<Rightarrow> (Failure 500 SERVER_ERROR [], s\<lparr>transactions := tbl\<rparr>)
              | (Some created, tbl) \<Rightarrow> (Success 201 created, s\<lparr>transactions := tbl\<rparr>)))"

section \<open>PUT /transactions/:id and the group routes\<close>

text \<open>
  The output of \<open>transactionSchema.partial()\<close>: every property may be absent. With zod 3 an
  absent \<open>isFixed\<close> stays absent, the default of the full schema is not applied.
\<close>

record tx_patch =
  p_date :: "string option"
  p_amount :: "real option"
  p_categoryId :: "string nullable"
  p_description :: "string option"
  p_type :: "tx_type option"
  p_isFixed :: "bool option"
  p_groupId :: "string nullable"

definition zOptional :: "(json option \<Rightarrow> 'a option) \<Rightarrow> json option \<Rightarrow> 'a option option" where
  "zOptional inner v = (case v of None \<Rightarrow> Some None | Some x \<Rightarrow> map_option Some (inner v))"

definition transactionUpdateSchema :: "json \<Rightarrow> issue list + tx_patch" where
  "transactionUpdateSchema j =
     (case j of
        JObj kvs \<Rightarrow>
          (let dt = zOptional zDate (field kvs ''date'');
               am = zOptional zPositive (field kvs ''amount'');
               ca = zNullableString (field kvs ''categoryId'');
               de = zOptional zNonEmpty (field kvs ''description'');
               ty = zOptional zTxType (field kvs ''type'');
               fx = zOptional zBoolDefaultFalse (field kvs ''isFixed'');
               gr = zNullableString (field kvs ''groupId'')
           in case (dt, am, ca, de, ty, fx, gr) of
                (Some d, Some a, Some c, Some ds, Some t, Some f, Some g) \<Rightarrow>
                  Inr \<lparr>p_date = d, p_amount = a, p_categoryId = c, p_description = ds,
                       p_type = t, p_isFixed = f, p_groupId = g\<rparr>
              | _ \<Rightarrow>
                  Inl (failed ''date'' dt @ failed ''amount'' am @ failed ''categoryId'' ca @
                       failed ''description'' de @ failed ''type'' ty @ failed ''isFixed'' fx @
                       failed ''groupId'' gr))
      | _ \<Rightarrow> Inl [[]])"

text \<open>
  \<open>.set({ ...updates })\<close>: the ORM skips the properties that are \<open>undefined\<close> and writes the
  others, \<open>null\<close> included.
\<close>

definition setNullable :: "string nullable \<Rightarrow> string option \<Rightarrow> string option" where
  "setNullable v old = (case v of Undefined \<Rightarrow> old | Null \<Rightarrow> None | Value x \<Rightarrow> Some x)"

definition setFields :: "tx_patch \<Rightarrow> transaction \<Rightarrow> transaction" where
  "setFields u r =
     r\<lparr>date := (case p_date u of None \<Rightarrow> date r | Some x \<Rightarrow> x),
       amount := (case p_amount u of None \<Rightarrow> amount r | Some x \<Rightarrow> x),
       categoryId := setNullable (p_categoryId u) (categoryId r),
       description := (case p_description u of None \<Rightarrow> description r | Some x \<Rightarrow> x),
       ttype := (case p_type u of None \<Rightarrow> ttype r | Some x \<Rightarrow> x),
       isFixed := (case p_isFixed u of None \<Rightarrow> isFixed r | Some x \<Rightarrow> x),
       groupId := setNullable (p_groupId u) (groupId r)\<rparr>"

text \<open>\<open>db.update(schema.transactions).set(...).where(eq(schema.transactions.id, i)).run()\<close>\<close>

definition updateWhereId ::
  "string \<Rightarrow> (transaction \<Rightarrow> transaction) \<Rightarrow> transaction list \<Rightarrow> transaction list" where
  "updateWhereId i f tbl = map (\<lambda>r. if txId r = i then f r else r) tbl"

definition putTransaction ::
  "env \<Rightarrow> string \<Rightarrow> json \<Rightarrow> store \<Rightarrow> transaction option reply \<times> store" where
  "putTransaction e i body s =
     (case transactionUpdateSchema body of
        Inl issues \<Rightarrow> (Failure 400 VALIDATION_ERROR issues, s)
      | Inr dat \<Rightarrow>
          (case getTransaction i (transactions s) of
             None \<Rightarrow> (Failure 404 NOT_FOUND [], s)
           | Some existing \<Rightarrow>
               (let tbl = updateWhereId i (\<lambda>r. (setFields dat r)\<lparr>updatedAt := nowIso e\<rparr>)
                            (transactions s)
                in (Success 200 (getTransaction i tbl), s\<lparr>transactions := tbl\<rparr>))))"

datatype scope = All | Future

text \<open>\<open>z.enum(['all', 'future'])\<close>\<close>

definition zScope :: "json option \<Rightarrow> scope option" where
  "zScope v =
     (case v of Some (JStr s) \<Rightarrow>
        (if s = ''all'' then Some All else if s = ''future'' then Some Future else None)
      | _ \<Rightarrow> None)"

definition groupUpdateSchema :: "json \<Rightarrow> issue list + (tx_patch \<times> scope \<times> string option)" where
  "groupUpdateSchema j =
     (case j of
        JObj kvs \<Rightarrow>
          (let updates = (case field kvs ''updates'' of
                            None \<Rightarrow> Inl [[]]
                          | Some u \<Rightarrow> transactionUpdateSchema u);
               sc = zScope (field kvs ''scope'');
               fd = zOptional zDate (field kvs ''fromDate'')
           in case (updates, sc, fd) of
                (Inr u, Some c, Some f) \<Rightarrow> Inr (u, c, f)
              | (Inr u, _, _) \<Rightarrow> Inl (failed ''scope'' sc @ failed ''fromDate'' fd)
              | (Inl is, _, _) \<Rightarrow>
                  Inl (map ((#) (Key ''updates'')) is @ failed ''scope'' sc @ failed ''fromDate'' fd))
      | _ \<Rightarrow> Inl [[]])"

text \<open>
  \<open>db.select().from(schema.transactions).where(eq(schema.transactions.groupId, groupId)).all()\<close>
\<close>

definition selectGroup :: "string \<Rightarrow> transaction list \<Rightarrow> transaction list" where
  "selectGroup g tbl = filter (\<lambda>t. groupId t = Some g) tbl"

text \<open>\<open>fromDate && t.date >= fromDate\<close>: an absent or empty \<open>fromDate\<close> is falsy.\<close>

definition fromDateOnwards :: "string option \<Rightarrow> transaction \<Rightarrow> bool" where
  "fromDateOnwards fromDate t =
     (case fromDate of None \<Rightarrow> False | Some f \<Rightarrow> f \<noteq> [] \<and> f \<le> date t)"

definition putGroup ::
  "env \<Rightarrow> string \<Rightarrow> json \<Rightarrow> store \<Rightarrow> transaction list reply \<times> store" where
  "putGroup e g body s =
     (case groupUpdateSchema body of
        Inl issues \<Rightarrow> (Failure 400 VALIDATION_ERROR issues, s)
      | Inr (updates, sc, fromDate) \<Rightarrow>
          (let groupTransactions = selectGroup g (transactions s)
           in if length groupTransactions = 0 then (Failure 404 NOT_FOUND [], s)
              else
                (let toUpdate = (if sc = All then groupTransactions
                                 else filter (fromDateOnwards fromDate) groupTransactions);
                     tbl = foldl (\<lambda>tb tx.
                              updateWhereId (txId tx)
                                (\<lambda>r. (setFields updates r)\<lparr>date := date tx, updatedAt := nowIso e\<rparr>)
                                tb)
                            (transactions s) toUpdate;
                     updatedTransactions = selectGroup g tbl
                 in (Success 200 updatedTransactions, s\<lparr>transactions := tbl\<rparr>))))"

text \<open>
  The query string of the group delete is not validated: \<open>scope\<close> and \<open>fromDate\<close> are
  whatever strings the request carries, or absent.
\<close>

definition deleteGroup ::
  "string \<Rightarrow> string option \<Rightarrow> string option \<Rightarrow> store \<Rightarrow> nat reply \<times> store" where
  "deleteGroup g scopeParam fromDate s =
     (let sc = (case scopeParam of None \<Rightarrow> ''all'' | Some x \<Rightarrow> x);
          groupTransactions = selectGroup g (transactions s)
      in if length groupTransactions = 0 then (Failure 404 NOT_FOUND [], s)
         else if sc = ''all'' then
           (Success 200 (length groupTransactions),
            s\<lparr>transactions := filter (\<lambda>t. groupId t \<noteq> Some g) (transactions s)\<rparr>)
         else
           (case fromDate of
              Some f \<Rightarrow>
                (if f \<noteq> [] then
                   (let toDelete = filter (\<lambda>t. f \<le> date t) groupTransactions;
                        res = foldl (\<lambda>(tb, deletedCount) tx.
                                 (filter (\<lambda>r. txId r \<noteq> txId tx) tb, Suc deletedCount))
                               (transactions s, 0) toDelete
                    in (Success 200 (snd res), s\<lparr>transactions := fst res\<rparr>))
                 else (Success 200 0, s))
            | None \<Rightarrow> (Success 200 0, s)))"

section \<open>GET /settings and PUT /settings\<close>

definition zNumber :: "json option \<Rightarrow> real option" where
  "zNumber v = (case v of Some (JNum x) \<Rightarrow> Some x | _ \<Rightarrow> None)"

definition zNumberMin0 :: "json option \<Rightarrow> real option" where
  "zNumberMin0 v = (case v of Some (JNum x) \<Rightarrow> (if 0 \<le> x then Some x else None) | _ \<Rightarrow> None)"

definition zString :: "json option \<Rightarrow> string option" where
  "zString v = (case v of Some (JStr x) \<Rightarrow> Some x | _ \<Rightarrow> None)"

definition zBoolean :: "json option \<Rightarrow> bool option" where
  "zBoolean v = (case v of Some (JBool x) \<Rightarrow> Some x | _ \<Rightarrow> None)"

record settings_patch =
  u_monthlyIncome :: "real option"
  u_currency :: "string option"
  u_showFixedCosts :: "bool option"
  u_checkingBalance :: "real option"
  u_creditCardBalance :: "real option"
  u_balanceAsOf :: "string option"

definition settingsUpdateSchema :: "json \<Rightarrow> issue list + settings_patch" where
  "settingsUpdateSchema j =
     (case j of
        JObj kvs \<Rightarrow>
          (let mi = zOptional zNumberMin0 (field kvs ''monthlyIncome'');
               cu = zOptional zNonEmpty (field kvs ''currency'');
               sh = zOptional zBoolean (field kvs ''showFixedCosts'');
               cb = zOptional zNumber (field kvs ''checkingBalance'');
               cc = zOptional zNumber (field kvs ''creditCardBalance'');
               ba = zOptional zString (field kvs ''balanceAsOf'')
           in case (mi, cu, sh, cb, cc, ba) of
                (Some a, Some b, Some c, Some d, Some f, Some g) \<Rightarrow>
                  Inr \<lparr>u_monthlyIncome = a, u_currency = b, u_showFixedCosts = c,
                       u_checkingBalance = d, u_creditCardBalance = f, u_balanceAsOf = g\<rparr>
              | _ \<Rightarrow>
                  Inl (failed ''monthlyIncome'' mi @ failed ''currency'' cu @
                       failed ''showFixedCosts'' sh @ failed ''checkingBalance'' cb @
                       failed ''creditCardBalance'' cc @ failed ''balanceAsOf'' ba))
      | _ \<Rightarrow> Inl [[]])"

text \<open>\<open>db.select().from(schema.settings).where(eq(schema.settings.id, 1)).get()\<close>\<close>

definition selectSettings :: "settingsRow list \<Rightarrow> settingsRow option" where
  "selectSettings tbl = find (\<lambda>r. setId r = 1) tbl"

text \<open>The insert throws when the primary key is already present.\<close>

definition insertSettings :: "settingsRow \<Rightarrow> settingsRow list \<Rightarrow> settingsRow list option" where
  "insertSettings row tbl =
     (if setId row \<in> set (map setId tbl) then None else Some (tbl @ [row]))"

definition defaultSettings :: "env \<Rightarrow> settingsRow" where
  "defaultSettings e =
     \<lparr>setId = 1, monthlyIncome = 8000, currency = ''$'', showFixedCosts = True,
      checkingBalance = 0, creditCardBalance = 0, balanceAsOf = nowIso e,
      setUpdatedAt = nowSql e\<rparr>"

definition getSettings :: "env \<Rightarrow> store \<Rightarrow> settingsRow option reply \<times> store" where
  "getSettings e s =
     (case selectSettings (settings s) of
        Some st \<Rightarrow> (Success 200 (Some st), s)
      | None \<Rightarrow>
          (case insertSettings (defaultSettings e) (settings s) of
             None \<Rightarrow> (Failure 500 SERVER_ERROR [], s)
           | Some tbl \<Rightarrow> (Success 200 (selectSettings tbl), s\<lparr>settings := tbl\<rparr>)))"

definition setSettingsFields :: "settings_patch \<Rightarrow> settingsRow \<Rightarrow> settingsRow" where
  "setSettingsFields u r =
     r\<lparr>monthlyIncome := (case u_monthlyIncome u of None \<Rightarrow> monthlyIncome r | Some x \<Rightarrow> x),
       currency := (case u_currency u of None \<Rightarrow> currency r | Some x \<Rightarrow> x),
       showFixedCosts := (case u_showFixedCosts u of None \<Rightarrow> showFixedCosts r | Some x \<Rightarrow> x),
       checkingBalance := (case u_checkingBalance u of None \<Rightarrow> checkingBalance r | Some x \<Rightarrow> x),
       creditCardBalance :=
         (case u_creditCardBalance u of None \<Rightarrow> creditCardBalance r | Some x \<Rightarrow> x),
       balanceAsOf := (case u_balanceAsOf u of None \<Rightarrow> balanceAsOf r | Some x \<Rightarrow> x)\<rparr>"

text \<open>\<open>db.update(schema.settings).set(...).where(eq(schema.settings.id, 1)).run()\<close>\<close>

definition updateSettings :: "(settingsRow \<Rightarrow> settingsRow) \<Rightarrow> settingsRow list \<Rightarrow> settingsRow list" where
  "updateSettings f tbl = map (\<lambda>r. if setId r = 1 then f r else r) tbl"

definition putSettings :: "env \<Rightarrow> json \<Rightarrow> store \<Rightarrow> settingsRow option reply \<times> store" where
  "putSettings e body s =
     (case settingsUpdateSchema body of
        Inl issues \<Rightarrow> (Failure 400 VALIDATION_ERROR issues, s)
      | Inr dat \<Rightarrow>
          (case (case selectSettings (settings s) of
                   Some st \<Rightarrow> Some (settings s)
                 | None \<Rightarrow> insertSettings (defaultSettings e) (settings s)) of
             None \<Rightarrow> (Failure 500 SERVER_ERROR [], s)
           | Some tbl \<Rightarrow>
               (let tbl' = updateSettings
                             (\<lambda>r. (setSettingsFields dat r)\<lparr>setUpdatedAt := nowIso e\<rparr>) tbl
                in (Success 200 (selectSettings tbl'), s\<lparr>settings := tbl'\<rparr>))))"

section \<open>GET /migrate/export and POST /migrate/import\<close>

record imp_category =
  ic_id :: string
  ic_name :: string
  ic_weeklyBudget :: real
  ic_period :: period
  ic_color :: string

record imp_transaction =
  it_id :: string
  it_date :: string
  it_amount :: real
  it_categoryId :: string
  it_description :: string
  it_type :: tx_type
  it_isFixed :: "bool option"
  it_groupId :: "string option"

record imp_settings =
  is_monthlyIncome :: real
  is_currency :: string
  is_showFixedCosts :: bool
  is_checkingBalance :: "real option"
  is_creditCardBalance :: "real option"
  is_balanceAsOf :: "string option"

text \<open>\<open>z.enum(['weekly', 'monthly'])\<close>\<close>

definition zPeriod :: "json option \<Rightarrow> period option" where
  "zPeriod v =
     (case v of Some (JStr s) \<Rightarrow>
        (if s = ''weekly'' then Some Weekly else if s = ''monthly'' then Some Monthly else None)
      | _ \<Rightarrow> None)"

text \<open>The schemas of the import route: they differ from those of the transaction routes.\<close>

definition importCategorySchema :: "json \<Rightarrow> issue list + imp_category" where
  "importCategorySchema j =
     (case j of
        JObj kvs \<Rightarrow>
          (let i = zString (field kvs ''id'');
               n = zString (field kvs ''name'');
               w = zNumber (field kvs ''weeklyBudget'');
               p = zPeriod (field kvs ''period'');
               c = zString (field kvs ''color'')
           in case (i, n, w, p, c) of
                (Some a, Some b, Some d, Some f, Some g) \<Rightarrow>
                  Inr \<lparr>ic_id = a, ic_name = b, ic_weeklyBudget = d, ic_period = f, ic_color = g\<rparr>
              | _ \<Rightarrow>
                  Inl (failed ''id'' i @ failed ''name'' n @ failed ''weeklyBudget'' w @
                       failed ''period'' p @ failed ''color'' c))
      | _ \<Rightarrow> Inl [[]])"

definition importTransactionSchema :: "json \<Rightarrow> issue list + imp_transaction" where
  "importTransactionSchema j =
     (case j of
        JObj kvs \<Rightarrow>
          (let i = zString (field kvs ''id'');
               dt = zString (field kvs ''date'');
               am = zNumber (field kvs ''amount'');
               ca = zString (field kvs ''categoryId'');
               de = zString (field kvs ''description'');
               ty = zTxType (field kvs ''type'');
               fx = zOptional zBoolean (field kvs ''isFixed'');
               gr = zOptional zString (field kvs ''groupId'')
           in case (i, dt, am, ca, de, ty, fx, gr) of
                (Some a, Some b, Some c, Some d, Some f, Some g, Some h, Some k) \<Rightarrow>
                  Inr \<lparr>it_id = a, it_date = b, it_amount = c, it_categoryId = d,
                       it_description = f, it_type = g, it_isFixed = h, it_groupId = k\<rparr>
              | _ \<Rightarrow>
                  Inl (failed ''id'' i @ failed ''date'' dt @ failed ''amount'' am @
                       failed ''categoryId'' ca @ failed ''description'' de @ failed ''type'' ty @
                       failed ''isFixed'' fx @ failed ''groupId'' gr))
      | _ \<Rightarrow> Inl [[]])"

definition importSettingsSchema :: "json \<Rightarrow> issue list + imp_settings" where
  "importSettingsSchema j =
     (case j of
        JObj kvs \<Rightarrow>
          (let mi = zNumber (field kvs ''monthlyIncome'');
               cu = zString (field kvs ''currency'');
               sh = zBoolean (field kvs ''showFixedCosts'');
               cb = zOptional zNumber (field kvs ''checkingBalance'');
               cc = zOptional zNumber (field kvs ''creditCardBalance'');
               ba = zOptional zString (field kvs ''balanceAsOf'')
           in case (mi, cu, sh, cb, cc, ba) of
                (Some a, Some b, Some c, Some d, Some f, Some g) \<Rightarrow>
                  Inr \<lparr>is_monthlyIncome = a, is_currency = b, is_showFixedCosts = c,
                       is_checkingBalance = d, is_creditCardBalance = f, is_balanceAsOf = g\<rparr>
              | _ \<Rightarrow>
                  Inl (failed ''monthlyIncome'' mi @ failed ''currency'' cu @
                       failed ''showFixedCosts'' sh @ failed ''checkingBalance'' cb @
                       failed ''creditCardBalance'' cc @ failed ''balanceAsOf'' ba))
      | _ \<Rightarrow> Inl [[]])"

text \<open>
  \<open>z.array(schema)\<close> on the elements from index \<open>i\<close> on: the issues of every element, under
  its index, and the parsed elements.
\<close>

fun parseElements :: "(json \<Rightarrow> issue list + 'a) \<Rightarrow> nat \<Rightarrow> json list \<Rightarrow> issue list \<times> 'a list" where
  "parseElements p i [] = ([], [])"
| "parseElements p i (x # xs) =
     (case parseElements p (Suc i) xs of
        (is, ys) \<Rightarrow>
          (case p x of
             Inl js \<Rightarrow> (map ((#) (Idx i)) js @ is, ys)
           | Inr y \<Rightarrow> (is, y # ys)))"

definition zArray :: "(json \<Rightarrow> issue list + 'a) \<Rightarrow> json option \<Rightarrow> issue list + 'a list" where
  "zArray p v =
     (case v of
        Some (JArr xs) \<Rightarrow>
          (case parseElements p 0 xs of (is, ys) \<Rightarrow> if is = [] then Inr ys else Inl is)
      | _ \<Rightarrow> Inl [[]])"

definition under :: "string \<Rightarrow> issue list + 'a \<Rightarrow> issue list" where
  "under k r = (case r of Inl is \<Rightarrow> map ((#) (Key k)) is | Inr _ \<Rightarrow> [])"

definition importSchema ::
  "json \<Rightarrow> issue list + (imp_category list \<times> imp_transaction list \<times> imp_settings)" where
  "importSchema j =
     (case j of
        JObj kvs \<Rightarrow>
          (let cs = zArray importCategorySchema (field kvs ''categories'');
               ts = zArray importTransactionSchema (field kvs ''transactions'');
               st = (case field kvs ''settings'' of
                       None \<Rightarrow> Inl [[]]
                     | Some x \<Rightarrow> importSettingsSchema x)
           in case (cs, ts, st) of
                (Inr a, Inr b, Inr c) \<Rightarrow> Inr (a, b, c)
              | _ \<Rightarrow> Inl (under ''categories'' cs @ under ''transactions'' ts @ under ''settings'' st))
      | _ \<Rightarrow> Inl [[]])"

text \<open>The loop over the imported categories: a category whose id exists is skipped.\<close>

fun importCategories :: "env \<Rightarrow> imp_category list \<Rightarrow> category list \<Rightarrow> nat \<Rightarrow> category list \<times> nat" where
  "importCategories e [] tbl categoriesImported = (tbl, categoriesImported)"
| "importCategories e (c # cs) tbl categoriesImported =
     (case find (\<lambda>r. catId r = ic_id c) tbl of
        Some existing \<Rightarrow> importCategories e cs tbl categoriesImported
      | None \<Rightarrow>
          importCategories e cs
            (tbl @ [\<lparr>catId = ic_id c, name = ic_name c, weeklyBudget = ic_weeklyBudget c,
                     cperiod = ic_period c, color = ic_color c,
                     catCreatedAt = nowSql e, catUpdatedAt = nowSql e\<rparr>])
            (Suc categoriesImported))"

text \<open>\<open>x || null\<close> and \<open>x || false\<close> on optional properties.\<close>

definition strOrNull :: "string option \<Rightarrow> string option" where
  "strOrNull v = (case v of Some s \<Rightarrow> (if s = [] then None else Some s) | None \<Rightarrow> None)"

definition boolOrFalse :: "bool option \<Rightarrow> bool" where
  "boolOrFalse v = (case v of Some b \<Rightarrow> b | None \<Rightarrow> False)"

fun importTransactions ::
  "env \<Rightarrow> imp_transaction list \<Rightarrow> transaction list \<Rightarrow> nat \<Rightarrow> transaction list \<times> nat" where
  "importTransactions e [] tbl transactionsImported = (tbl, transactionsImported)"
| "importTransactions e (t # ts) tbl transactionsImported =
     (case getTransaction (it_id t) tbl of
        Some existing \<Rightarrow> importTransactions e ts tbl transactionsImported
      | None \<Rightarrow>
          importTransactions e ts
            (tbl @ [\<lparr>txId = it_id t, date = it_date t, amount = it_amount t,
                     categoryId = strOrNull (Some (it_categoryId t)),
                     description = it_description t, ttype = it_type t,
                     isFixed = boolOrFalse (it_isFixed t),
                     groupId = strOrNull (it_groupId t),
                     createdAt = nowSql e, updatedAt = nowSql e\<rparr>])
            (Suc transactionsImported))"

text \<open>\<open>x || 0\<close> on an optional number.\<close>

definition numOrZero :: "real option \<Rightarrow> real" where
  "numOrZero v = (case v of Some x \<Rightarrow> x | None \<Rightarrow> 0)"

definition strOrNow :: "env \<Rightarrow> string option \<Rightarrow> string" where
  "strOrNow e v = (case v of Some s \<Rightarrow> (if s = [] then nowIso e else s) | None \<Rightarrow> nowIso e)"

definition importSettings :: "env \<Rightarrow> imp_settings \<Rightarrow> settingsRow list \<Rightarrow> settingsRow list option" where
  "importSettings e st tbl =
     (case selectSettings tbl of
        Some existingSettings \<Rightarrow>
          Some (updateSettings
                  (\<lambda>r. r\<lparr>monthlyIncome := is_monthlyIncome st, currency := is_currency st,
                         showFixedCosts := is_showFixedCosts st,
                         checkingBalance := numOrZero (is_checkingBalance st),
                         creditCardBalance := numOrZero (is_creditCardBalance st),
                         balanceAsOf := strOrNow e (is_balanceAsOf st),
                         setUpdatedAt := nowIso e\<rparr>)
                  tbl)
      | None \<Rightarrow>
          insertSettings
            \<lparr>setId = 1, monthlyIncome = is_monthlyIncome st, currency = is_currency st,
             showFixedCosts = is_showFixedCosts st,
             checkingBalance = numOrZero (is_checkingBalance st),
             creditCardBalance = numOrZero (is_creditCardBalance st),
             balanceAsOf = strOrNow e (is_balanceAsOf st),
             setUpdatedAt = nowSql e\<rparr>
            tbl)"

text \<open>The payload of a successful import: the two counters.\<close>

definition postImport :: "env \<Rightarrow> json \<Rightarrow> store \<Rightarrow> (nat \<times> nat) reply \<times> store" where
  "postImport e body s =
     (case importSchema body of
        Inl issues \<Rightarrow> (Failure 400 VALIDATION_ERROR issues, s)
      | Inr (cs, ts, st) \<Rightarrow>
          (case importCategories e cs (categories s) 0 of
             (ctbl, categoriesImported) \<Rightarrow>
               (case importTransactions e ts (transactions s) 0 of
                  (ttbl, transactionsImported) \<Rightarrow>
                    (case importSettings e st (settings s) of
                       None \<Rightarrow>
                         (Failure 500 SERVER_ERROR [],
                          s\<lparr>categories := ctbl, transactions := ttbl\<rparr>)
                     | Some stbl \<Rightarrow>
                         (Success 200 (categoriesImported, transactionsImported),
                          s\<lparr>categories := ctbl, transactions := ttbl, settings := stbl\<rparr>)))))"

text \<open>The rows as the export prints them in JSON.\<close>

definition jsonOfNullable :: "string option \<Rightarrow> json" where
  "jsonOfNullable v = (case v of None \<Rightarrow> JNull | Some s \<Rightarrow> JStr s)"

definition typeName :: "tx_type \<Rightarrow> string" where
  "typeName t = (case t of Expense \<Rightarrow> ''expense'' | Income \<Rightarrow> ''income'' | CcPayment \<Rightarrow> ''cc_payment'')"

definition periodName :: "period \<Rightarrow> string" where
  "periodName p = (case p of Weekly \<Rightarrow> ''weekly'' | Monthly \<Rightarrow> ''monthly'')"

definition jsonOfCategory :: "category \<Rightarrow> json" where
  "jsonOfCategory c =
     JObj [(''id'', JStr (catId c)), (''name'', JStr (name c)),
           (''weeklyBudget'', JNum (weeklyBudget c)), (''period'', JStr (periodName (cperiod c))),
           (''color'', JStr (color c)), (''createdAt'', JStr (catCreatedAt c)),
           (''updatedAt'', JStr (catUpdatedAt c))]"

definition jsonOfTransaction :: "transaction \<Rightarrow> json" where
  "jsonOfTransaction t =
     JObj [(''id'', JStr (txId t)), (''date'', JStr (date t)), (''amount'', JNum (amount t)),
           (''categoryId'', jsonOfNullable (categoryId t)),
           (''description'', JStr (description t)), (''type'', JStr (typeName (ttype t))),
           (''isFixed'', JBool (isFixed t)), (''groupId'', jsonOfNullable (groupId t)),
           (''createdAt'', JStr (createdAt t)), (''updatedAt'', JStr (updatedAt t))]"

definition jsonOfSettings :: "settingsRow \<Rightarrow> json" where
  "jsonOfSettings r =
     JObj [(''id'', JNum (of_int (setId r))), (''monthlyIncome'', JNum (monthlyIncome r)),
           (''currency'', JStr (currency r)), (''showFixedCosts'', JBool (showFixedCosts r)),
           (''checkingBalance'', JNum (checkingBalance r)),
           (''creditCardBalance'', JNum (creditCardBalance r)),
           (''balanceAsOf'', JStr (balanceAsOf r)), (''updatedAt'', JStr (setUpdatedAt r))]"

text \<open>
  The \<open>data\<close> object of the export. A property whose value is \<open>undefined\<close> (no settings row)
  is left out by JSON.
\<close>

definition exportData :: "env \<Rightarrow> store \<Rightarrow> json" where
  "exportData e s =
     JObj ([(''categories'', JArr (map jsonOfCategory (categories s))),
            (''transactions'', JArr (map jsonOfTransaction (transactions s)))] @
           (case selectSettings (settings s) of
              None \<Rightarrow> []
            | Some r \<Rightarrow> [(''settings'', jsonOfSettings r)]) @
           [(''exportedAt'', JStr (nowIso e))])"

definition getExport :: "env \<Rightarrow> store \<Rightarrow> json reply \<times> store" where
  "getExport e s = (Success 200 (exportData e s), s)"

section \<open>Notions used by the properties\<close>

text \<open>
  The constraints that the schema puts on the tables: the primary keys, and the check that a
  settings row has id 1.
\<close>

definition wellFormed :: "store \<Rightarrow> bool" where
  "wellFormed s =
     (distinct (map catId (categories s)) \<and> distinct (map txId (transactions s)) \<and>
      distinct (map setId (settings s)) \<and> list_all (\<lambda>r. setId r = 1) (settings s))"

text \<open>A string of the form YYYY-MM-DD that names a day of the calendar.\<close>

definition calendarDate :: "string \<Rightarrow> bool" where
  "calendarDate s =
     (dateRegex s \<and> 1 \<le> monthOf s \<and> monthOf s \<le> 12 \<and> 1 \<le> dayOf s \<and>
      dayOf s \<le> daysInMonth (yearOf s) (monthOf s - 1))"

text \<open>
  The date the specification asks of the transaction at month index \<open>i\<close>: the month is the
  base month plus \<open>i\<close> with the year rolling over, the day is the base day or the last day
  of that month, whichever is smaller.
\<close>

definition clampedDate :: "string \<Rightarrow> nat \<Rightarrow> civil" where
  "clampedDate s i =
     (let targetYear = yearOf s + (monthOf s - 1 + int i) div 12;
          targetMonth = (monthOf s - 1 + int i) mod 12
      in (targetYear, targetMonth, min (dayOf s) (daysInMonth targetYear targetMonth)))"

text \<open>The invariant of the data model: a fixed transaction has a group id.\<close>

definition fixedHaveGroup :: "store \<Rightarrow> bool" where
  "fixedHaveGroup s = (\<forall>t \<in> set (transactions s). isFixed t \<longrightarrow> groupId t \<noteq> None)"

text \<open>Every property of the patch other than the date has its value in the row.\<close>

definition patchApplied :: "tx_patch \<Rightarrow> transaction \<Rightarrow> bool" where
  "patchApplied u t =
     ((case p_amount u of None \<Rightarrow> True | Some x \<Rightarrow> amount t = x) \<and>
      (case p_categoryId u of Undefined \<Rightarrow> True | Null \<Rightarrow> categoryId t = None
         | Value x \<Rightarrow> categoryId t = Some x) \<and>
      (case p_description u of None \<Rightarrow> True | Some x \<Rightarrow> description t = x) \<and>
      (case p_type u of None \<Rightarrow> True | Some x \<Rightarrow> ttype t = x) \<and>
      (case p_isFixed u of None \<Rightarrow> True | Some x \<Rightarrow> isFixed t = x) \<and>
      (case p_groupId u of Undefined \<Rightarrow> True | Null \<Rightarrow> groupId t = None
         | Value x \<Rightarrow> groupId t = Some x))"

text \<open>What the group update writes into a member: the patch, with the member's own date kept.\<close>

definition groupPatched :: "env \<Rightarrow> tx_patch \<Rightarrow> transaction \<Rightarrow> transaction" where
  "groupPatched e u t = (setFields u t)\<lparr>date := date t, updatedAt := nowIso e\<rparr>"

text \<open>
  The four conditions on a transaction body that the interface names: the date matches
  YYYY-MM-DD, the amount is a strictly positive number, the description is a non-empty
  string, the type is one of the three names.
\<close>

definition namedConditions :: "json \<Rightarrow> bool" where
  "namedConditions j =
     (case j of
        JObj kvs \<Rightarrow>
          (case field kvs ''date'' of Some (JStr d) \<Rightarrow> dateRegex d | _ \<Rightarrow> False) \<and>
          (case field kvs ''amount'' of Some (JNum a) \<Rightarrow> 0 < a | _ \<Rightarrow> False) \<and>
          (case field kvs ''description'' of Some (JStr d) \<Rightarrow> d \<noteq> [] | _ \<Rightarrow> False) \<and>
          (case field kvs ''type'' of
             Some (JStr t) \<Rightarrow> t = ''expense'' \<or> t = ''income'' \<or> t = ''cc_payment''
           | _ \<Rightarrow> False)
      | _ \<Rightarrow> False)"

text \<open>
  The optional properties of a transaction body have their types: \<open>categoryId\<close> and
  \<open>groupId\<close>, when present, are a string or null, \<open>isFixed\<close>, when present, is a boolean.
\<close>

definition optionalsTyped :: "json \<Rightarrow> bool" where
  "optionalsTyped j =
     (case j of
        JObj kvs \<Rightarrow>
          (case field kvs ''categoryId'' of
             None \<Rightarrow> True | Some JNull \<Rightarrow> True | Some (JStr c) \<Rightarrow> True | _ \<Rightarrow> False) \<and>
          (case field kvs ''isFixed'' of None \<Rightarrow> True | Some (JBool b) \<Rightarrow> True | _ \<Rightarrow> False) \<and>
          (case field kvs ''groupId'' of
             None \<Rightarrow> True | Some JNull \<Rightarrow> True | Some (JStr g) \<Rightarrow> True | _ \<Rightarrow> False)
      | _ \<Rightarrow> False)"

text \<open>An issue on one property of a transaction body.\<close>

definition propertyIssue :: "issue \<Rightarrow> bool" where
  "propertyIssue i =
     (i \<in> set (map (\<lambda>k. [Key k])
        [''date'', ''amount'', ''categoryId'', ''description'', ''type'', ''isFixed'', ''groupId'']))"

text \<open>
  The row holds what the body says: date, amount, description and type are the body's,
  \<open>isFixed\<close> is true exactly when the body says true, and \<open>categoryId\<close> and \<open>groupId\<close> are
  the body's non-empty string, or null.
\<close>

definition storedFrom :: "json \<Rightarrow> transaction \<Rightarrow> bool" where
  "storedFrom j row =
     (case j of
        JObj kvs \<Rightarrow>
          field kvs ''date'' = Some (JStr (date row)) \<and>
          field kvs ''amount'' = Some (JNum (amount row)) \<and>
          field kvs ''description'' = Some (JStr (description row)) \<and>
          field kvs ''type'' = Some (JStr (typeName (ttype row))) \<and>
          isFixed row = (field kvs ''isFixed'' = Some (JBool True)) \<and>
          categoryId row =
            (case field kvs ''categoryId'' of
               Some (JStr c) \<Rightarrow> (if c = [] then None else Some c) | _ \<Rightarrow> None) \<and>
          groupId row =
            (case field kvs ''groupId'' of
               Some (JStr g) \<Rightarrow> (if g = [] then None else Some g) | _ \<Rightarrow> None)
      | _ \<Rightarrow> False)"

text \<open>Exactly one settings record exists, and its id is 1.\<close>

definition oneSettingsRecord :: "store \<Rightarrow> bool" where
  "oneSettingsRecord s = (case settings s of [r] \<Rightarrow> setId r = 1 | _ \<Rightarrow> False)"

text \<open>
  A store whose export the import schema accepts: every transaction has a category and a
  group id, and the settings record exists.
\<close>

definition importable :: "store \<Rightarrow> bool" where
  "importable s =
     (list_all (\<lambda>t. categoryId t \<noteq> None \<and> groupId t \<noteq> None) (transactions s) \<and>
      settings s \<noteq> [])"

text \<open>What the import writes into the settings record that the export was taken from.\<close>

definition reimported :: "env \<Rightarrow> settingsRow \<Rightarrow> settingsRow" where
  "reimported e r =
     r\<lparr>balanceAsOf := (if balanceAsOf r = [] then nowIso e else balanceAsOf r),
       setUpdatedAt := nowIso e\<rparr>"

section \<open>Example data\<close>

text \<open>A server in UTC, and one in Africa/Lagos, one hour ahead of UTC all year.\<close>

definition exampleEnv :: env where
  "exampleEnv = \<lparr>tzOffset = (\<lambda>c. 0), nowIso = ''2025-06-01T12:00:00.000Z'',
                  nowSql = ''2025-06-01 12:00:00''\<rparr>"

definition lagosEnv :: env where
  "lagosEnv = \<lparr>tzOffset = (\<lambda>c. 60), nowIso = ''2025-06-01T12:00:00.000Z'',
                nowSql = ''2025-06-01 12:00:00''\<rparr>"

text \<open>
  A server in Europe/London during 2025: summer time began on 30 March at 01:00 UTC and ended
  on 26 October at 01:00 UTC, so local midnight is one hour ahead of UTC from 31 March to
  26 October. Only days of 2025 are looked up.
\<close>

definition londonEnv :: env where
  "londonEnv =
     \<lparr>tzOffset = (\<lambda>c. case c of (y, m, d) \<Rightarrow>
                    if (m = 2 \<and> 31 \<le> d) \<or> (3 \<le> m \<and> m \<le> 8) \<or> (m = 9 \<and> d \<le> 26)
                    then 60 else 0),
      nowIso = ''2025-06-01T12:00:00.000Z'', nowSql = ''2025-06-01 12:00:00''\<rparr>"

definition exampleUuids :: uuids where
  "exampleUuids n = ''uuid-'' @ pad 2 n"

definition emptyStore :: store where
  "emptyStore = \<lparr>categories = [], transactions = [], settings = []\<rparr>"

definition rentBase :: json where
  "rentBase = JObj [(''date'', JStr ''2025-01-31''), (''amount'', JNum 1200),
                    (''categoryId'', JStr ''fixed''), (''description'', JStr ''Rent''),
                    (''type'', JStr ''expense'')]"

definition rentData :: tx_data where
  "rentData = \<lparr>d_date = ''2025-01-31'', d_amount = 1200, d_categoryId = Value ''fixed'',
               d_description = ''Rent'', d_type = Expense, d_isFixed = False,
               d_groupId = Undefined\<rparr>"

definition uncategorisedBase :: json where
  "uncategorisedBase = JObj [(''date'', JStr ''2025-01-31''), (''amount'', JNum 1200),
                             (''categoryId'', JStr []), (''description'', JStr ''Rent''),
                             (''type'', JStr ''expense'')]"

definition ancientBase :: json where
  "ancientBase = JObj [(''date'', JStr ''0050-01-31''), (''amount'', JNum 1200),
                       (''categoryId'', JStr ''fixed''), (''description'', JStr ''Rent''),
                       (''type'', JStr ''expense'')]"

definition recurringBody :: "json \<Rightarrow> nat \<Rightarrow> json" where
  "recurringBody b n = JObj [(''base'', b), (''months'', JNum (real n))]"

definition scenarioBase :: "string \<Rightarrow> string \<Rightarrow> json" where
  "scenarioBase d descr =
     JObj [(''date'', JStr d), (''amount'', JNum 1200), (''categoryId'', JStr ''fixed''),
           (''description'', JStr descr), (''type'', JStr ''expense'')]"

definition memberRow :: "string \<Rightarrow> string \<Rightarrow> transaction" where
  "memberRow i d =
     \<lparr>txId = i, date = d, amount = 1200, categoryId = Some ''fixed'', description = ''Rent'',
      ttype = Expense, isFixed = True, groupId = Some ''g1'',
      createdAt = ''2025-01-01 09:00:00'', updatedAt = ''2025-01-01 09:00:00''\<rparr>"

definition coffeeRow :: transaction where
  "coffeeRow =
     \<lparr>txId = ''t4'', date = ''2025-02-10'', amount = 4, categoryId = None,
      description = ''Coffee'', ttype = Expense, isFixed = False, groupId = None,
      createdAt = ''2025-02-10 08:00:00'', updatedAt = ''2025-02-10 08:00:00''\<rparr>"

definition groupStore :: store where
  "groupStore =
     \<lparr>categories = [],
      transactions = [memberRow ''t1'' ''2025-01-31'', memberRow ''t2'' ''2025-02-28'',
                      coffeeRow, memberRow ''t3'' ''2025-03-31''],
      settings = []\<rparr>"

definition raisePatch :: tx_patch where
  "raisePatch = \<lparr>p_date = Some ''2030-01-01'', p_amount = Some 1300, p_categoryId = Undefined,
                 p_description = None, p_type = None, p_isFixed = None, p_groupId = Undefined\<rparr>"

definition clientPatch :: tx_patch where
  "clientPatch = \<lparr>p_date = Some ''2025-02-28'', p_amount = Some 1300, p_categoryId = Value ''fixed'',
                   p_description = Some ''Rent'', p_type = Some Expense, p_isFixed = Some True,
                   p_groupId = Value ''g1''\<rparr>"

definition clientUpdateBody :: json where
  "clientUpdateBody =
     JObj [(''updates'',
              JObj [(''date'', JStr ''2025-02-28''), (''amount'', JNum 1300),
                    (''categoryId'', JStr ''fixed''), (''description'', JStr ''Rent''),
                    (''type'', JStr ''expense''), (''isFixed'', JBool True),
                    (''groupId'', JStr ''g1'')]),
           (''scope'', JStr ''future''), (''fromDate'', JStr ''2025-02-01'')]"

definition groupUpdateBody :: "string \<Rightarrow> json" where
  "groupUpdateBody sc =
     JObj [(''updates'', JObj [(''date'', JStr ''2030-01-01''), (''amount'', JNum 1300)]),
           (''scope'', JStr sc), (''fromDate'', JStr ''2025-02-01'')]"

definition fixedOneOffBody :: json where
  "fixedOneOffBody =
     JObj [(''date'', JStr ''2025-03-01''), (''amount'', JNum 15), (''description'', JStr ''Gym''),
           (''type'', JStr ''expense''), (''isFixed'', JBool True)]"

definition markFixedBody :: json where
  "markFixedBody = JObj [(''isFixed'', JBool True)]"

definition ungroupBody :: json where
  "ungroupBody = JObj [(''updates'', JObj [(''groupId'', JNull)]), (''scope'', JStr ''all'')]"

definition fixedImportBody :: json where
  "fixedImportBody =
     JObj [(''categories'', JArr []),
           (''transactions'',
              JArr [JObj [(''id'', JStr ''old-1''), (''date'', JStr ''2024-12-01''),
                          (''amount'', JNum 15), (''categoryId'', JStr ''fixed''),
                          (''description'', JStr ''Gym''), (''type'', JStr ''expense''),
                          (''isFixed'', JBool True)]]),
           (''settings'',
              JObj [(''monthlyIncome'', JNum 8000), (''currency'', JStr ''$''),
                    (''showFixedCosts'', JBool True)])]"

definition negativeAmountBody :: json where
  "negativeAmountBody =
     JObj [(''date'', JStr ''2025-03-01''), (''amount'', JNum (- 5)), (''description'', JStr []),
           (''type'', JStr ''expense'')]"

definition wrongFlagBody :: json where
  "wrongFlagBody =
     JObj [(''date'', JStr ''2025-03-01''), (''amount'', JNum 4), (''description'', JStr ''Coffee''),
           (''type'', JStr ''expense''), (''isFixed'', JStr ''yes'')]"

definition coffeeBody :: json where
  "coffeeBody =
     JObj [(''date'', JStr ''2025-03-01''), (''amount'', JNum 4), (''description'', JStr ''Coffee''),
           (''type'', JStr ''expense'')]"

definition currencyBody :: json where
  "currencyBody = JObj [(''currency'', JStr ''EUR''), (''monthlyIncome'', JNum 5000)]"

definition badSettingsBody :: json where
  "badSettingsBody = JObj [(''monthlyIncome'', JNum (- 1))]"

definition groceries :: category where
  "groceries = \<lparr>catId = ''groceries'', name = ''Groceries'', weeklyBudget = 800,
                 cperiod = Weekly, color = ''#10b981'',
                 catCreatedAt = ''2025-01-01 09:00:00'', catUpdatedAt = ''2025-01-01 09:00:00''\<rparr>"

definition backupStore :: store where
  "backupStore =
     \<lparr>categories = [groceries],
      transactions = [memberRow ''t1'' ''2025-01-31'', memberRow ''t2'' ''2025-02-28''],
      settings = [defaultSettings exampleEnv]\<rparr>"

definition oneOffStore :: store where
  "oneOffStore =
     \<lparr>categories = [groceries], transactions = [coffeeRow],
      settings = [defaultSettings exampleEnv]\<rparr>"

section \<open>Calendar arithmetic\<close>

lemma dim_bounds: "28 \<le> daysInMonth y m" "daysInMonth y m \<le> 31"
  by (auto simp: daysInMonth_def)

lemma normDay_id:
  "0 \<le> m \<Longrightarrow> m \<le> 11 \<Longrightarrow> 1 \<le> d \<Longrightarrow> d \<le> daysInMonth y m \<Longrightarrow> normDay y m d = (y, m, d)"
  by (subst normDay.simps) simp

lemma normDay_zero:
  assumes "0 \<le> m" "m \<le> 11"
  shows "normDay y m 0 = (if m = 0 then (y - 1, 11, 31) else (y, m - 1, daysInMonth y (m - 1)))"
proof (cases "m = 0")
  case True
  have "normDay y m 0 = normDay (y - 1) 11 31"
    using True by (subst normDay.simps) simp
  also have "\<dots> = (y - 1, 11, 31)"
    by (rule normDay_id) (simp_all add: daysInMonth_def)
  finally show ?thesis using True by simp
next
  case False
  have "normDay y m 0 = normDay y (m - 1) (daysInMonth y (m - 1))"
    using False assms by (subst normDay.simps) simp
  also have "\<dots> = (y, m - 1, daysInMonth y (m - 1))"
    using False assms dim_bounds[of y "m - 1"] by (intro normDay_id) simp_all
  finally show ?thesis using False by simp
qed

lemma succ_month_carry:
  fixes m :: int
  assumes "(m + 1) mod 12 = 0"
  shows "m mod 12 = 11" "(m + 1) div 12 = m div 12 + 1"
proof -
  have e: "m + 1 = 12 * ((m + 1) div 12)" using assms by (metis add.right_neutral mult_div_mod_eq)
  then have f: "m = 12 * ((m + 1) div 12 - 1) + 11" by simp
  show "m mod 12 = 11"
    by (rule int_mod_pos_eq[of m 12 "(m + 1) div 12 - 1"]) (use f in simp_all)
  have "m div 12 = (m + 1) div 12 - 1"
    by (rule int_div_pos_eq[of m 12 _ 11]) (use f in simp_all)
  then show "(m + 1) div 12 = m div 12 + 1" by simp
qed

lemma succ_month_same:
  fixes m :: int
  assumes "(m + 1) mod 12 \<noteq> 0"
  shows "m mod 12 = (m + 1) mod 12 - 1" "(m + 1) div 12 = m div 12"
proof -
  let ?r = "(m + 1) mod 12"
  have r: "1 \<le> ?r" "?r \<le> 11" using assms
    by (smt (verit) pos_mod_sign, smt (verit) pos_mod_bound)
  have e: "m + 1 = 12 * ((m + 1) div 12) + ?r" by simp
  then have f: "m = 12 * ((m + 1) div 12) + (?r - 1)" by linarith
  show "m mod 12 = ?r - 1"
    by (rule int_mod_pos_eq[of m 12 "(m + 1) div 12"]) (use f r in simp_all)
  have "m div 12 = (m + 1) div 12"
    by (rule int_div_pos_eq[of m 12 _ "?r - 1"]) (use f r in simp_all)
  then show "(m + 1) div 12 = m div 12" by simp
qed


lemma lastDay_makeDay:
  "getDate (makeDay y (m + 1) 0) = daysInMonth (y + m div 12) (m mod 12)"
proof (cases "(m + 1) mod 12 = 0")
  case True
  note a = succ_month_carry[OF True]
  have "makeDay y (m + 1) 0 = (y + (m + 1) div 12 - 1, 11, 31)"
    using True by (simp add: makeDay_def normDay_zero)
  then show ?thesis
    using a by (simp add: getDate_def daysInMonth_def)
next
  case False
  note a = succ_month_same[OF False]
  have b: "0 \<le> (m + 1) mod 12" "(m + 1) mod 12 \<le> 11" by simp_all
  have "makeDay y (m + 1) 0 =
          (y + (m + 1) div 12, (m + 1) mod 12 - 1,
           daysInMonth (y + (m + 1) div 12) ((m + 1) mod 12 - 1))"
    unfolding makeDay_def using False by (simp only: normDay_zero[OF b] if_False)
  then show ?thesis
    using a by (simp add: getDate_def)
qed

lemma projectDate_eq:
  assumes "\<not> (0 \<le> y \<and> y \<le> 99)" "1 \<le> d"
  shows "projectDate (y, m, d) d i =
           (y + (m + i) div 12, (m + i) mod 12,
            min d (daysInMonth (y + (m + i) div 12) ((m + i) mod 12)))"
proof -
  let ?ty = "y + (m + i) div 12" and ?tm = "(m + i) mod 12"
  have n: "newDate y k x = makeDay y k x" for k x
    using assms(1) by (auto simp: newDate_def)
  have "projectDate (y, m, d) d i = makeDay y (m + i) (min d (daysInMonth ?ty ?tm))"
    by (simp only: projectDate_def Let_def getFullYear_def getMonth_def n lastDay_makeDay
          fst_conv snd_conv)
  also have "\<dots> = (?ty, ?tm, min d (daysInMonth ?ty ?tm))"
    unfolding makeDay_def using assms(2) dim_bounds[of ?ty ?tm]
    by (intro normDay_id) simp_all
  finally show ?thesis .
qed

lemma toISODate_west:
  assumes "- 1440 < tzOffset e (y, m, d)" "tzOffset e (y, m, d) \<le> 0"
    and "0 \<le> m" "m \<le> 11" "1 \<le> d" "d \<le> daysInMonth y m"
  shows "toISODate e (y, m, d) = isoDate (y, m, d)"
proof -
  have "(- tzOffset e (y, m, d)) div 1440 = 0" using assms(1,2) by simp
  then show ?thesis using assms by (simp add: toISODate_def normDay_id)
qed

lemma parseLocalDate_calendar:
  assumes "calendarDate s"
  shows "parseLocalDate s = Some (yearOf s, monthOf s - 1, dayOf s)"
proof -
  have a: "1 \<le> monthOf s" "monthOf s \<le> 12" "1 \<le> dayOf s" "dayOf s \<le> daysInMonth (yearOf s) (monthOf s - 1)"
    using assms by (simp_all add: calendarDate_def)
  have b: "dayOf s \<le> 31" using a(4) dim_bounds(2)[of "yearOf s" "monthOf s - 1"] by linarith
  have c: "(monthOf s - 1) div 12 = 0" "(monthOf s - 1) mod 12 = monthOf s - 1" using a(1,2) by simp_all
  show ?thesis using a b c by (simp add: parseLocalDate_def Let_def makeDay_def normDay_id)
qed

section \<open>The recurrence generator\<close>

lemma insertTransaction_fresh:
  "txId row \<notin> set (map txId tbl) \<Longrightarrow> insertTransaction row tbl = Some (tbl @ [row])"
  by (simp add: insertTransaction_def)

lemma getTransaction_appended:
  "txId row \<notin> set (map txId tbl) \<Longrightarrow> getTransaction (txId row) (tbl @ [row]) = Some row"
  unfolding getTransaction_def by (induction tbl) auto

lemma recurringLoop_fresh:
  assumes "distinct (map rand [Suc i..<Suc (i + k)])"
    and "set (map rand [Suc i..<Suc (i + k)]) \<inter> set (map txId tbl) = {}"
  shows "recurringLoop e rand base gid (Some bd) k i tbl created =
           (Some (created @ map (recurringRow e rand base gid bd) [i..<i + k]),
            tbl @ map (recurringRow e rand base gid bd) [i..<i + k])"
  using assms
proof (induction k arbitrary: i tbl created)
  case 0
  then show ?case by simp
next
  case (Suc k)
  let ?row = "recurringRow e rand base gid bd i"
  have rid: "txId ?row = rand (Suc i)" by (simp add: recurringRow_def)
  have up: "[Suc i..<Suc (i + Suc k)] = Suc i # [Suc (Suc i)..<Suc (Suc i + k)]"
    by (simp add: upt_conv_Cons)
  have p1: "distinct (map rand (Suc i # [Suc (Suc i)..<Suc (Suc i + k)]))"
    using Suc.prems(1) by (simp only: up)
  have p2: "set (map rand (Suc i # [Suc (Suc i)..<Suc (Suc i + k)])) \<inter> set (map txId tbl) = {}"
    using Suc.prems(2) by (simp only: up)
  have fresh: "txId ?row \<notin> set (map txId tbl)"
    using p2 rid by (auto simp del: upt_Suc)
  have d': "distinct (map rand [Suc (Suc i)..<Suc (Suc i + k)])"
    using p1 by (simp del: upt_Suc)
  have f': "set (map rand [Suc (Suc i)..<Suc (Suc i + k)]) \<inter> set (map txId (tbl @ [?row])) = {}"
    using p1 p2 rid by (auto simp del: upt_Suc)
  have ih: "recurringLoop e rand base gid (Some bd) k (Suc i) (tbl @ [?row]) (created @ [?row]) =
      (Some ((created @ [?row]) @ map (recurringRow e rand base gid bd) [Suc i..<Suc i + k]),
       (tbl @ [?row]) @ map (recurringRow e rand base gid bd) [Suc i..<Suc i + k])"
    by (rule Suc.IH[OF d' f'])
  have idx: "[i..<i + Suc k] = i # [Suc i..<Suc i + k]"
    by (simp add: upt_conv_Cons)
  have g: "getTransaction (rand (Suc i)) (tbl @ [?row]) = Some ?row"
    using getTransaction_appended[OF fresh] rid by simp
  show ?case
    by (simp only: recurringLoop.simps option.case Let_def insertTransaction_fresh[OF fresh] g ih idx)
       simp
qed

lemma recurringRequestSchema_months:
  assumes "transactionSchema b = Inr base" "1 \<le> n" "n \<le> 24"
  shows "recurringRequestSchema (recurringBody b n) = Inr (base, n)"
  using assms by (simp add: recurringRequestSchema_def recurringBody_def field_def zMonths_def)

lemma postRecurring_fresh:
  assumes "recurringRequestSchema body = Inr (base, n)"
    and "parseLocalDate (d_date base) = Some bd"
    and "distinct (map rand [1..<Suc n])"
    and "set (map rand [1..<Suc n]) \<inter> set (map txId (transactions s)) = {}"
  shows "postRecurring e rand body s =
           (Success 201 (map (recurringRow e rand base (rand 0) bd) [0..<n]),
            s\<lparr>transactions := transactions s @ map (recurringRow e rand base (rand 0) bd) [0..<n]\<rparr>)"
proof -
  have "recurringLoop e rand base (rand 0) (Some bd) n 0 (transactions s) [] =
          (Some ([] @ map (recurringRow e rand base (rand 0) bd) [0..<0 + n]),
           transactions s @ map (recurringRow e rand base (rand 0) bd) [0..<0 + n])"
    by (rule recurringLoop_fresh) (use assms(3,4) in simp_all)
  then show ?thesis
    using assms(1,2) by (simp add: postRecurring_def)
qed

text \<open>
  Where no day has the zone ahead of UTC, and from the year 100 on, the date printed at month
  index \<open>i\<close> is the base month plus \<open>i\<close>, on the base day or the last day of that month.
\<close>

lemma recurringRow_date:
  assumes "calendarDate s" "100 \<le> yearOf s"
    and "\<And>c. - 1440 < tzOffset e c \<and> tzOffset e c \<le> 0"
  shows "toISODate e (projectDate (yearOf s, monthOf s - 1, dayOf s) (dayOf s) (int i)) =
           isoDate (clampedDate s i)"
proof -
  let ?ty = "yearOf s + (monthOf s - 1 + int i) div 12" and ?tm = "(monthOf s - 1 + int i) mod 12"
  have d: "1 \<le> dayOf s" using assms(1) by (simp add: calendarDate_def)
  have p: "projectDate (yearOf s, monthOf s - 1, dayOf s) (dayOf s) (int i) =
             (?ty, ?tm, min (dayOf s) (daysInMonth ?ty ?tm))"
    by (rule projectDate_eq) (use assms(2) d in simp_all)
  have "toISODate e (?ty, ?tm, min (dayOf s) (daysInMonth ?ty ?tm)) =
          isoDate (?ty, ?tm, min (dayOf s) (daysInMonth ?ty ?tm))"
    using assms(3) d dim_bounds[of ?ty ?tm] by (intro toISODate_west) simp_all
  then show ?thesis
    by (simp only: p clampedDate_def Let_def)
qed

text \<open>
  Claim C1, as the code has it by design. For a base that passes \<open>transactionSchema\<close> and
  names a day of the calendar, for every number of months from 1 to 24, and for identifiers
  that are new and pairwise different, POST /transactions/recurring answers 201 with exactly
  \<open>months\<close> transactions and appends exactly these to the table. Their ids are pairwise
  different and new, they all carry the one group id drawn at the start of the call,
  \<open>isFixed\<close> is true whatever the draft said, amount, description and type are the base's,
  and \<open>categoryId\<close> is the base's with an absent or empty one stored as null. The dates of
  the transactions are not part of this statement.
\<close>

theorem recurring_generates_group:
  assumes base: "transactionSchema b = Inr base"
    and months: "1 \<le> n" "n \<le> 24"
    and cal: "calendarDate (d_date base)"
    and ids: "distinct (map rand [1..<Suc n])"
    and fresh: "set (map rand [1..<Suc n]) \<inter> set (map txId (transactions s)) = {}"
  shows "\<exists>created.
           postRecurring e rand (recurringBody b n) s =
             (Success 201 created, s\<lparr>transactions := transactions s @ created\<rparr>) \<and>
           length created = n \<and>
           distinct (map txId created) \<and>
           set (map txId created) \<inter> set (map txId (transactions s)) = {} \<and>
           (\<forall>i<n. groupId (created ! i) = Some (rand 0) \<and>
                  isFixed (created ! i) \<and>
                  amount (created ! i) = d_amount base \<and>
                  categoryId (created ! i) = orNull (d_categoryId base) \<and>
                  description (created ! i) = d_description base \<and>
                  ttype (created ! i) = d_type base)"
proof -
  let ?bd = "(yearOf (d_date base), monthOf (d_date base) - 1, dayOf (d_date base))"
  let ?rows = "map (recurringRow e rand base (rand 0) ?bd) [0..<n]"
  have sch: "recurringRequestSchema (recurringBody b n) = Inr (base, n)"
    by (rule recurringRequestSchema_months[OF base months])
  have run: "postRecurring e rand (recurringBody b n) s =
               (Success 201 ?rows, s\<lparr>transactions := transactions s @ ?rows\<rparr>)"
    by (rule postRecurring_fresh[OF sch parseLocalDate_calendar[OF cal] ids fresh])
  have idmap: "map txId ?rows = map rand [1..<Suc n]"
    by (simp add: recurringRow_def map_Suc_upt[symmetric] comp_def del: upt_Suc)
  have row: "groupId (?rows ! i) = Some (rand 0) \<and> isFixed (?rows ! i) \<and>
             amount (?rows ! i) = d_amount base \<and>
             categoryId (?rows ! i) = orNull (d_categoryId base) \<and>
             description (?rows ! i) = d_description base \<and>
             ttype (?rows ! i) = d_type base" if "i < n" for i
    using that by (simp add: recurringRow_def)
  have "length ?rows = n" by simp
  moreover have "distinct (map txId ?rows)" using ids by (simp only: idmap)
  moreover have "set (map txId ?rows) \<inter> set (map txId (transactions s)) = {}"
    using fresh by (simp only: idmap)
  ultimately show ?thesis using run row by blast
qed

text \<open>
  The theorem at the rent example, three months on the table that holds a group of three and
  a one-off row, on the server in Lagos.
\<close>

theorem recurring_generates_group_witness:
  "transactionSchema rentBase = Inr rentData \<and>
   calendarDate (d_date rentData) \<and>
   distinct (map exampleUuids [1..<Suc 3]) \<and>
   set (map exampleUuids [1..<Suc 3]) \<inter> set (map txId (transactions groupStore)) = {} \<and>
   (\<exists>created.
      postRecurring lagosEnv exampleUuids (recurringBody rentBase 3) groupStore =
        (Success 201 created, groupStore\<lparr>transactions := transactions groupStore @ created\<rparr>) \<and>
      length created = 3 \<and> distinct (map txId created) \<and>
      groupId (created ! 1) = Some (exampleUuids 0) \<and> isFixed (created ! 1) \<and>
      amount (created ! 1) = 1200 \<and> categoryId (created ! 1) = Some ''fixed'' \<and>
      description (created ! 1) = ''Rent'' \<and> ttype (created ! 1) = Expense)"
proof -
  have h1: "transactionSchema rentBase = Inr rentData" by code_simp
  have h2: "(1::nat) \<le> 3" "(3::nat) \<le> 24" by simp_all
  have h3: "calendarDate (d_date rentData)" by code_simp
  have h6: "distinct (map exampleUuids [1..<Suc 3])" by code_simp
  have h7: "set (map exampleUuids [1..<Suc 3]) \<inter> set (map txId (transactions groupStore)) = {}"
    by code_simp
  have v: "d_amount rentData = 1200" "orNull (d_categoryId rentData) = Some ''fixed''"
    "d_description rentData = ''Rent''" "d_type rentData = Expense"
    by code_simp+
  from recurring_generates_group[OF h1 h2 h3 h6 h7, of lagosEnv]
  obtain created where
    c: "postRecurring lagosEnv exampleUuids (recurringBody rentBase 3) groupStore =
          (Success 201 created, groupStore\<lparr>transactions := transactions groupStore @ created\<rparr>)"
       "length created = 3" "distinct (map txId created)"
    and r: "\<forall>i<3. groupId (created ! i) = Some (exampleUuids 0) \<and>
                  isFixed (created ! i) \<and>
                  amount (created ! i) = d_amount rentData \<and>
                  categoryId (created ! i) = orNull (d_categoryId rentData) \<and>
                  description (created ! i) = d_description rentData \<and>
                  ttype (created ! i) = d_type rentData"
    by blast
  from r have q: "groupId (created ! 1) = Some (exampleUuids 0)" "isFixed (created ! 1)"
      "amount (created ! 1) = 1200" "categoryId (created ! 1) = Some ''fixed''"
      "description (created ! 1) = ''Rent''" "ttype (created ! 1) = Expense"
    using v by simp_all
  have "\<exists>created.
      postRecurring lagosEnv exampleUuids (recurringBody rentBase 3) groupStore =
        (Success 201 created, groupStore\<lparr>transactions := transactions groupStore @ created\<rparr>) \<and>
      length created = 3 \<and> distinct (map txId created) \<and>
      groupId (created ! 1) = Some (exampleUuids 0) \<and> isFixed (created ! 1) \<and>
      amount (created ! 1) = 1200 \<and> categoryId (created ! 1) = Some ''fixed'' \<and>
      description (created ! 1) = ''Rent'' \<and> ttype (created ! 1) = Expense"
    by (intro exI[of _ created] conjI c q)
  then show ?thesis by (intro conjI h1 h3 h6 h7)
qed

text \<open>
  Where claim C1 fails as it is written. By design, an empty \<open>categoryId\<close> passes validation
  and is stored as null, not copied. By two slips the dates are not the ones the claim gives:
  \<open>toISOString\<close> prints the UTC day of local midnight, which is the day before wherever the
  zone is ahead of UTC on that day (every date in Lagos, the date of 31 March in London), and
  a base year below 100 is moved into the twentieth century by the \<open>Date\<close> constructor.
\<close>

theorem recurring_copy_counterexample:
  "transactionSchema uncategorisedBase =
     Inr \<lparr>d_date = ''2025-01-31'', d_amount = 1200, d_categoryId = Value [],
          d_description = ''Rent'', d_type = Expense, d_isFixed = False, d_groupId = Undefined\<rparr> \<and>
   fst (postRecurring exampleEnv exampleUuids (recurringBody uncategorisedBase 1) emptyStore) =
     Success 201
       [\<lparr>txId = ''uuid-01'', date = ''2025-01-31'', amount = 1200, categoryId = None,
         description = ''Rent'', ttype = Expense, isFixed = True, groupId = Some ''uuid-00'',
         createdAt = ''2025-06-01 12:00:00'', updatedAt = ''2025-06-01 12:00:00''\<rparr>] \<and>
   map date (transactions
       (snd (postRecurring lagosEnv exampleUuids (recurringBody uncategorisedBase 3) emptyStore))) =
     [''2025-01-30'', ''2025-02-27'', ''2025-03-30''] \<and>
   map date (transactions
       (snd (postRecurring londonEnv exampleUuids (recurringBody uncategorisedBase 3) emptyStore))) =
     [''2025-01-31'', ''2025-02-28'', ''2025-03-30''] \<and>
   map date (transactions
       (snd (postRecurring exampleEnv exampleUuids (recurringBody ancientBase 2) emptyStore))) =
     [''1950-01-31'', ''1950-02-28'']"
  by code_simp

text \<open>
  Claim C2 on the code. The base of the scenario with the description ``Rent'', three months
  from 2025-01-31: on a server in UTC the transactions are dated 2025-01-31, 2025-02-28 and
  2025-03-31, as the claim and the comment in the loop say. On a server in Lagos they are
  dated 2025-01-30, 2025-02-27 and 2025-03-30, on a server in London 2025-01-31, 2025-02-28
  and 2025-03-30. From 2024-01-31 the transaction at month index 1 is dated 2024-02-29 in UTC
  and 2024-02-28 in Lagos. In each case all transactions are fixed and share the group id.
\<close>

theorem recurring_scenario_dates:
  "map date (transactions (snd (postRecurring exampleEnv exampleUuids
       (recurringBody (scenarioBase ''2025-01-31'' ''Rent'') 3) emptyStore))) =
     [''2025-01-31'', ''2025-02-28'', ''2025-03-31''] \<and>
   map date (transactions (snd (postRecurring lagosEnv exampleUuids
       (recurringBody (scenarioBase ''2025-01-31'' ''Rent'') 3) emptyStore))) =
     [''2025-01-30'', ''2025-02-27'', ''2025-03-30''] \<and>
   map date (transactions (snd (postRecurring londonEnv exampleUuids
       (recurringBody (scenarioBase ''2025-01-31'' ''Rent'') 3) emptyStore))) =
     [''2025-01-31'', ''2025-02-28'', ''2025-03-30''] \<and>
   map (\<lambda>t. (isFixed t, groupId t)) (transactions (snd (postRecurring lagosEnv exampleUuids
       (recurringBody (scenarioBase ''2025-01-31'' ''Rent'') 3) emptyStore))) =
     [(True, Some ''uuid-00''), (True, Some ''uuid-00''), (True, Some ''uuid-00'')] \<and>
   map date (transactions (snd (postRecurring exampleEnv exampleUuids
       (recurringBody (scenarioBase ''2024-01-31'' ''Rent'') 3) emptyStore))) ! 1 =
     ''2024-02-29'' \<and>
   map date (transactions (snd (postRecurring lagosEnv exampleUuids
       (recurringBody (scenarioBase ''2024-01-31'' ''Rent'') 3) emptyStore))) ! 1 =
     ''2024-02-28''"
  by code_simp

section \<open>The group routes\<close>

lemma txId_setFields: "txId (setFields u r) = txId r"
  by (simp add: setFields_def)

lemma same_id_same_row:
  "distinct (map txId tbl) \<Longrightarrow> r \<in> set tbl \<Longrightarrow> t \<in> set tbl \<Longrightarrow> txId r = txId t \<Longrightarrow> r = t"
  by (meson distinct_map inj_onD)

lemma group_update_fold:
  assumes "distinct (map txId tbl)" "distinct us" "set us \<subseteq> set tbl"
  shows "foldl (\<lambda>tb tx. updateWhereId (txId tx)
                  (\<lambda>r. (setFields u r)\<lparr>date := date tx, updatedAt := now\<rparr>) tb) tbl us =
         map (\<lambda>r. if r \<in> set us then (setFields u r)\<lparr>date := date r, updatedAt := now\<rparr> else r) tbl"
  using assms(2,3)
proof (induction us rule: rev_induct)
  case Nil
  then show ?case by simp
next
  case (snoc tx us)
  let ?F = "\<lambda>tb tx. updateWhereId (txId tx)
                  (\<lambda>r. (setFields u r)\<lparr>date := date tx, updatedAt := now\<rparr>) tb"
  let ?H = "\<lambda>vs r. if r \<in> set vs then (setFields u r)\<lparr>date := date r, updatedAt := now\<rparr> else r"
  have d: "distinct us" "tx \<notin> set us" "set us \<subseteq> set tbl" "tx \<in> set tbl"
    using snoc.prems by auto
  have ih: "foldl ?F tbl us = map (?H us) tbl"
    by (rule snoc.IH[OF d(1,3)])
  have step: "(if txId (?H us r) = txId tx
               then (setFields u (?H us r))\<lparr>date := date tx, updatedAt := now\<rparr>
               else ?H us r) = ?H (us @ [tx]) r"
    if "r \<in> set tbl" for r
  proof (cases "r = tx")
    case True
    then show ?thesis using d(2) by (simp add: txId_setFields)
  next
    case False
    then have "txId r \<noteq> txId tx"
      using same_id_same_row[OF assms(1) that d(4)] by blast
    then show ?thesis using False by (simp add: txId_setFields)
  qed
  have "foldl ?F tbl (us @ [tx]) = ?F (foldl ?F tbl us) tx" by simp
  also have "\<dots> = ?F (map (?H us) tbl) tx" by (simp only: ih)
  also have "\<dots> = map (?H (us @ [tx])) tbl"
    unfolding updateWhereId_def map_map comp_def
    by (rule map_cong[OF refl]) (rule step)
  finally show ?case .
qed

lemma group_delete_fold:
  "foldl (\<lambda>(tb, deletedCount) tx. (filter (\<lambda>r. txId r \<noteq> txId tx) tb, Suc deletedCount))
     (tbl, c) us =
   (filter (\<lambda>r. txId r \<notin> txId ` set us) tbl, c + length us)"
proof (induction us arbitrary: tbl c)
  case Nil
  then show ?case by simp
next
  case (Cons tx us)
  show ?case
    by (simp add: Cons.IH)
qed

lemma putGroup_table:
  assumes "distinct (map txId (transactions s))"
    and "selectGroup g (transactions s) \<noteq> []"
    and "groupUpdateSchema body = Inr (u, sc, fd)"
  shows "putGroup e g body s =
           (Success 200
              (selectGroup g
                 (map (\<lambda>r. if groupId r = Some g \<and> (sc = All \<or> fromDateOnwards fd r)
                            then groupPatched e u r else r) (transactions s))),
            s\<lparr>transactions :=
                 map (\<lambda>r. if groupId r = Some g \<and> (sc = All \<or> fromDateOnwards fd r)
                           then groupPatched e u r else r) (transactions s)\<rparr>)"
proof -
  let ?tbl = "transactions s"
  let ?us = "if sc = All then selectGroup g ?tbl
             else filter (fromDateOnwards fd) (selectGroup g ?tbl)"
  have dt: "distinct ?tbl" using assms(1) by (simp add: distinct_map)
  have du: "distinct ?us" using dt by (simp add: selectGroup_def)
  have su: "set ?us \<subseteq> set ?tbl" by (auto simp: selectGroup_def)
  have mem: "r \<in> set ?us \<longleftrightarrow> groupId r = Some g \<and> (sc = All \<or> fromDateOnwards fd r)"
    if "r \<in> set ?tbl" for r
    using that by (auto simp: selectGroup_def)
  have "foldl (\<lambda>tb tx. updateWhereId (txId tx)
                  (\<lambda>r. (setFields u r)\<lparr>date := date tx, updatedAt := nowIso e\<rparr>) tb) ?tbl ?us =
        map (\<lambda>r. if r \<in> set ?us then (setFields u r)\<lparr>date := date r, updatedAt := nowIso e\<rparr> else r) ?tbl"
    by (rule group_update_fold[OF assms(1) du su])
  also have "\<dots> = map (\<lambda>r. if groupId r = Some g \<and> (sc = All \<or> fromDateOnwards fd r)
                           then groupPatched e u r else r) ?tbl"
    by (rule map_cong[OF refl]) (simp only: mem groupPatched_def)
  finally have f: "foldl (\<lambda>tb tx. updateWhereId (txId tx)
                  (\<lambda>r. (setFields u r)\<lparr>date := date tx, updatedAt := nowIso e\<rparr>) tb) ?tbl ?us =
        map (\<lambda>r. if groupId r = Some g \<and> (sc = All \<or> fromDateOnwards fd r)
                           then groupPatched e u r else r) ?tbl" .
  have ne: "length (selectGroup g ?tbl) \<noteq> 0" using assms(2) by simp
  show ?thesis
    unfolding putGroup_def Let_def
    by (simp only: assms(3) sum.case prod.case ne if_False f)
qed

lemma date_groupPatched: "date (groupPatched e u t) = date t"
  by (simp add: groupPatched_def)

lemma txId_groupPatched: "txId (groupPatched e u t) = txId t"
  by (simp add: groupPatched_def setFields_def)

lemma patchApplied_groupPatched: "patchApplied u (groupPatched e u t)"
  by (simp add: patchApplied_def groupPatched_def setFields_def setNullable_def
        split: option.split nullable.split)


text \<open>
  Claim C3. For a group that exists and a body that passes \<open>groupUpdateSchema\<close>, the
  group update leaves the id and the date of every row of the table as they were, also when
  the patch carries a date. With scope \<open>all\<close> every member of the group becomes the patched
  row (each property of the patch other than the date has the patch's value, the date is the
  member's own). With scope \<open>future\<close> and \<open>fromDate = X\<close> every row dated before \<open>X\<close> is
  left entirely unchanged.
\<close>

theorem group_update_respects_dates_and_scope:
  assumes pk: "distinct (map txId (transactions s))"
    and existing: "selectGroup g (transactions s) \<noteq> []"
    and body: "groupUpdateSchema body = Inr (updates, sc, fromDate)"
  shows "map txId (transactions (snd (putGroup e g body s))) = map txId (transactions s) \<and>
         map date (transactions (snd (putGroup e g body s))) = map date (transactions s) \<and>
         (sc = All \<longrightarrow>
            (\<forall>i<length (transactions s). groupId (transactions s ! i) = Some g \<longrightarrow>
               transactions (snd (putGroup e g body s)) ! i =
                 groupPatched e updates (transactions s ! i) \<and>
               patchApplied updates (transactions (snd (putGroup e g body s)) ! i))) \<and>
         (sc = Future \<longrightarrow>
            (\<forall>X. fromDate = Some X \<longrightarrow>
               (\<forall>i<length (transactions s). date (transactions s ! i) < X \<longrightarrow>
                  transactions (snd (putGroup e g body s)) ! i = transactions s ! i)))"
proof -
  let ?H = "\<lambda>r. if groupId r = Some g \<and> (sc = All \<or> fromDateOnwards fromDate r)
                then groupPatched e updates r else r"
  have t: "transactions (snd (putGroup e g body s)) = map ?H (transactions s)"
    by (simp add: putGroup_table[OF pk existing body])
  have ids: "map txId (map ?H (transactions s)) = map txId (transactions s)"
    by (simp add: txId_groupPatched)
  have dates: "map date (map ?H (transactions s)) = map date (transactions s)"
    by (simp add: date_groupPatched)
  have all: "map ?H (transactions s) ! i = groupPatched e updates (transactions s ! i) \<and>
             patchApplied updates (map ?H (transactions s) ! i)"
    if "sc = All" "i < length (transactions s)" "groupId (transactions s ! i) = Some g" for i
    using that by (simp add: patchApplied_groupPatched)
  have fut: "map ?H (transactions s) ! i = transactions s ! i"
    if "sc = Future" "fromDate = Some X" "i < length (transactions s)"
       "date (transactions s ! i) < X" for i X
  proof -
    have "\<not> X \<le> date (transactions s ! i)" using that(4) by (simp add: not_le)
    then show ?thesis using that(1,2,3) by (simp add: fromDateOnwards_def)
  qed
  show ?thesis
    unfolding t using ids dates all fut by blast
qed

text \<open>
  The theorem on a table with a group of three and a one-off row, for a patch that raises the
  amount and carries a date.
\<close>

theorem group_update_respects_dates_and_scope_witness:
  "distinct (map txId (transactions groupStore)) \<and>
   selectGroup ''g1'' (transactions groupStore) \<noteq> [] \<and>
   groupUpdateSchema (groupUpdateBody ''all'') = Inr (raisePatch, All, Some ''2025-02-01'') \<and>
   groupUpdateSchema (groupUpdateBody ''future'') = Inr (raisePatch, Future, Some ''2025-02-01'') \<and>
   map date (transactions (snd (putGroup exampleEnv ''g1'' (groupUpdateBody ''all'') groupStore))) =
     map date (transactions groupStore) \<and>
   transactions (snd (putGroup exampleEnv ''g1'' (groupUpdateBody ''all'') groupStore)) ! 3 =
     groupPatched exampleEnv raisePatch (transactions groupStore ! 3) \<and>
   transactions (snd (putGroup exampleEnv ''g1'' (groupUpdateBody ''future'') groupStore)) ! 0 =
     transactions groupStore ! 0"
proof -
  have h1: "distinct (map txId (transactions groupStore))" by code_simp
  have h2: "selectGroup ''g1'' (transactions groupStore) \<noteq> []" by code_simp
  have h3: "groupUpdateSchema (groupUpdateBody ''all'') = Inr (raisePatch, All, Some ''2025-02-01'')"
    by code_simp
  have h4: "groupUpdateSchema (groupUpdateBody ''future'') =
              Inr (raisePatch, Future, Some ''2025-02-01'')"
    by code_simp
  have i3: "3 < length (transactions groupStore)" "groupId (transactions groupStore ! 3) = Some ''g1''"
    by code_simp+
  have i0: "0 < length (transactions groupStore)" "date (transactions groupStore ! 0) < ''2025-02-01''"
    by code_simp+
  note a = group_update_respects_dates_and_scope[OF h1 h2 h3, of exampleEnv]
  note f = group_update_respects_dates_and_scope[OF h1 h2 h4, of exampleEnv]
  have c1: "map date (transactions (snd (putGroup exampleEnv ''g1'' (groupUpdateBody ''all'') groupStore))) =
     map date (transactions groupStore)"
    using a by (elim conjE)
  have c2: "transactions (snd (putGroup exampleEnv ''g1'' (groupUpdateBody ''all'') groupStore)) ! 3 =
     groupPatched exampleEnv raisePatch (transactions groupStore ! 3)"
    using a i3 by blast
  have c3: "transactions (snd (putGroup exampleEnv ''g1'' (groupUpdateBody ''future'') groupStore)) ! 0 =
     transactions groupStore ! 0"
    using f i0 by blast
  show ?thesis by (intro conjI h1 h2 h3 h4 c1 c2 c3)
qed

text \<open>
  Claim C5, as the code has it. The group update answers with the transactions that carry
  the group id after the update, selected by the scope or not. When the patch does not change
  \<open>groupId\<close> (it has none, or has the group's own id) these are all the members of the
  group in table order: the ones the scope selected as patched, the others as they were.
\<close>

theorem group_update_returns_group:
  assumes pk: "distinct (map txId (transactions s))"
    and existing: "selectGroup g (transactions s) \<noteq> []"
    and body: "groupUpdateSchema body = Inr (updates, sc, fromDate)"
  shows "fst (putGroup e g body s) =
           Success 200 (selectGroup g (transactions (snd (putGroup e g body s)))) \<and>
         (p_groupId updates = Undefined \<or> p_groupId updates = Value g \<longrightarrow>
            fst (putGroup e g body s) =
              Success 200
                (map (\<lambda>r. if sc = All \<or> fromDateOnwards fromDate r
                          then groupPatched e updates r else r)
                   (selectGroup g (transactions s))))"
proof -
  let ?H = "\<lambda>r. if groupId r = Some g \<and> (sc = All \<or> fromDateOnwards fromDate r)
                then groupPatched e updates r else r"
  have p: "putGroup e g body s =
             (Success 200 (selectGroup g (map ?H (transactions s))),
              s\<lparr>transactions := map ?H (transactions s)\<rparr>)"
    by (rule putGroup_table[OF pk existing body])
  have one: "fst (putGroup e g body s) =
           Success 200 (selectGroup g (transactions (snd (putGroup e g body s))))"
    by (simp add: p)
  have two: "selectGroup g (map ?H (transactions s)) =
               map (\<lambda>r. if sc = All \<or> fromDateOnwards fromDate r
                         then groupPatched e updates r else r)
                 (selectGroup g (transactions s))"
    if "p_groupId updates = Undefined \<or> p_groupId updates = Value g"
  proof -
    have keep: "groupId (?H r) = groupId r" for r
      using that by (auto simp: groupPatched_def setFields_def setNullable_def)
    have "selectGroup g (map ?H (transactions s)) =
            map ?H (filter (\<lambda>r. groupId (?H r) = Some g) (transactions s))"
      unfolding selectGroup_def filter_map comp_def ..
    also have "\<dots> = map ?H (selectGroup g (transactions s))"
      by (simp only: keep selectGroup_def)
    also have "\<dots> = map (\<lambda>r. if sc = All \<or> fromDateOnwards fromDate r
                         then groupPatched e updates r else r)
                 (selectGroup g (transactions s))"
      by (rule map_cong[OF refl]) (simp add: selectGroup_def)
    finally show ?thesis .
  qed
  show ?thesis using one two by (simp add: p)
qed

text \<open>
  The theorem for scope \<open>future\<close> on the group of three, for a patch without \<open>groupId\<close> and
  for a patch that carries the group's own id, as the client sends it.
\<close>

theorem group_update_returns_group_witness:
  "distinct (map txId (transactions groupStore)) \<and>
   selectGroup ''g1'' (transactions groupStore) \<noteq> [] \<and>
   groupUpdateSchema (groupUpdateBody ''future'') = Inr (raisePatch, Future, Some ''2025-02-01'') \<and>
   p_groupId raisePatch = Undefined \<and>
   fst (putGroup exampleEnv ''g1'' (groupUpdateBody ''future'') groupStore) =
     Success 200
       (map (\<lambda>r. if Future = All \<or> fromDateOnwards (Some ''2025-02-01'') r
                 then groupPatched exampleEnv raisePatch r else r)
          (selectGroup ''g1'' (transactions groupStore))) \<and>
   groupUpdateSchema clientUpdateBody = Inr (clientPatch, Future, Some ''2025-02-01'') \<and>
   p_groupId clientPatch = Value ''g1'' \<and>
   fst (putGroup exampleEnv ''g1'' clientUpdateBody groupStore) =
     Success 200
       (map (\<lambda>r. if Future = All \<or> fromDateOnwards (Some ''2025-02-01'') r
                 then groupPatched exampleEnv clientPatch r else r)
          (selectGroup ''g1'' (transactions groupStore)))"
proof -
  have h1: "distinct (map txId (transactions groupStore))" by code_simp
  have h2: "selectGroup ''g1'' (transactions groupStore) \<noteq> []" by code_simp
  have h4: "groupUpdateSchema (groupUpdateBody ''future'') =
              Inr (raisePatch, Future, Some ''2025-02-01'')"
    by code_simp
  have h5: "p_groupId raisePatch = Undefined" by code_simp
  have k4: "groupUpdateSchema clientUpdateBody = Inr (clientPatch, Future, Some ''2025-02-01'')"
    by code_simp
  have k5: "p_groupId clientPatch = Value ''g1''" by code_simp
  have c: "fst (putGroup exampleEnv ''g1'' (groupUpdateBody ''future'') groupStore) =
     Success 200
       (map (\<lambda>r. if Future = All \<or> fromDateOnwards (Some ''2025-02-01'') r
                 then groupPatched exampleEnv raisePatch r else r)
          (selectGroup ''g1'' (transactions groupStore)))"
    using group_update_returns_group[OF h1 h2 h4, of exampleEnv] h5 by blast
  have d: "fst (putGroup exampleEnv ''g1'' clientUpdateBody groupStore) =
     Success 200
       (map (\<lambda>r. if Future = All \<or> fromDateOnwards (Some ''2025-02-01'') r
                 then groupPatched exampleEnv clientPatch r else r)
          (selectGroup ''g1'' (transactions groupStore)))"
    using group_update_returns_group[OF h1 h2 k4, of exampleEnv] k5 by blast
  show ?thesis by (intro conjI h1 h2 h4 h5 c k4 k5 d)
qed

text \<open>
  Where claim C5 fails as it is written: with scope \<open>future\<close> from 2025-02-01 the scope
  selects the members of February and March, and the reply lists all three members, the
  untouched one of January included.
\<close>

theorem group_update_reply_counterexample:
  "fst (putGroup exampleEnv ''g1'' (groupUpdateBody ''future'') groupStore) =
     Success 200
       [memberRow ''t1'' ''2025-01-31'',
        (memberRow ''t2'' ''2025-02-28'')\<lparr>amount := 1300, updatedAt := nowIso exampleEnv\<rparr>,
        (memberRow ''t3'' ''2025-03-31'')\<lparr>amount := 1300, updatedAt := nowIso exampleEnv\<rparr>] \<and>
   filter (fromDateOnwards (Some ''2025-02-01'')) (selectGroup ''g1'' (transactions groupStore)) =
     [memberRow ''t2'' ''2025-02-28'', memberRow ''t3'' ''2025-03-31''] \<and>
   memberRow ''t1'' ''2025-01-31'' \<in> set (transactions
       (snd (putGroup exampleEnv ''g1'' (groupUpdateBody ''future'') groupStore)))"
  by code_simp

text \<open>
  Claim C4. For a group that exists: with scope \<open>all\<close> the group delete removes every
  member and answers with the size of the group; with scope \<open>future\<close> and a given
  \<open>fromDate = X\<close> it removes exactly the members dated \<open>X\<close> or later and answers with their
  number; with scope \<open>future\<close> and no \<open>fromDate\<close> (absent, or empty, which the code treats
  alike) nothing is removed and the count is 0.
\<close>

theorem group_delete_by_scope:
  assumes pk: "distinct (map txId (transactions s))"
    and existing: "selectGroup g (transactions s) \<noteq> []"
  shows "deleteGroup g (Some ''all'') fromDate s =
           (Success 200 (length (selectGroup g (transactions s))),
            s\<lparr>transactions := filter (\<lambda>t. groupId t \<noteq> Some g) (transactions s)\<rparr>) \<and>
         (X \<noteq> [] \<longrightarrow>
            deleteGroup g (Some ''future'') (Some X) s =
              (Success 200 (length (filter (\<lambda>t. X \<le> date t) (selectGroup g (transactions s)))),
               s\<lparr>transactions :=
                    filter (\<lambda>t. \<not> (groupId t = Some g \<and> X \<le> date t)) (transactions s)\<rparr>)) \<and>
         deleteGroup g (Some ''future'') None s = (Success 200 0, s) \<and>
         deleteGroup g (Some ''future'') (Some []) s = (Success 200 0, s)"
proof -
  let ?tbl = "transactions s"
  have ne: "length (selectGroup g ?tbl) \<noteq> 0" using existing by simp
  have sc: "''future'' \<noteq> ''all''" by simp
  have a: "deleteGroup g (Some ''all'') fromDate s =
           (Success 200 (length (selectGroup g ?tbl)),
            s\<lparr>transactions := filter (\<lambda>t. groupId t \<noteq> Some g) ?tbl\<rparr>)"
    using ne by (simp add: deleteGroup_def Let_def)
  have b: "deleteGroup g (Some ''future'') (Some X) s =
              (Success 200 (length (filter (\<lambda>t. X \<le> date t) (selectGroup g ?tbl))),
               s\<lparr>transactions := filter (\<lambda>t. \<not> (groupId t = Some g \<and> X \<le> date t)) ?tbl\<rparr>)"
    if x: "X \<noteq> []"
  proof -
    let ?us = "filter (\<lambda>t. X \<le> date t) (selectGroup g ?tbl)"
    have f: "foldl (\<lambda>(tb, deletedCount) tx. (filter (\<lambda>r. txId r \<noteq> txId tx) tb, Suc deletedCount))
               (?tbl, 0) ?us =
             (filter (\<lambda>r. txId r \<notin> txId ` set ?us) ?tbl, 0 + length ?us)"
      by (rule group_delete_fold)
    have m: "txId r \<notin> txId ` set ?us \<longleftrightarrow> \<not> (groupId r = Some g \<and> X \<le> date r)"
      if "r \<in> set ?tbl" for r
    proof -
      have "txId r \<in> txId ` set ?us \<longleftrightarrow> r \<in> set ?us"
      proof
        assume "txId r \<in> txId ` set ?us"
        then obtain t where t: "t \<in> set ?us" "txId r = txId t" by blast
        then have "t \<in> set ?tbl" by (simp add: selectGroup_def)
        then have "r = t" using same_id_same_row[OF pk that _ t(2)] by blast
        then show "r \<in> set ?us" using t(1) by simp
      qed simp
      then show ?thesis using that by (simp add: selectGroup_def)
    qed
    have g: "filter (\<lambda>r. txId r \<notin> txId ` set ?us) ?tbl =
             filter (\<lambda>t. \<not> (groupId t = Some g \<and> X \<le> date t)) ?tbl"
      by (rule filter_cong[OF refl]) (rule m)
    show ?thesis
      unfolding deleteGroup_def Let_def
      by (simp only: option.case ne sc if_False x not_False_eq_True if_True f g fst_conv snd_conv
            add_0)
  qed
  have c: "deleteGroup g (Some ''future'') None s = (Success 200 0, s)"
    using ne by (simp add: deleteGroup_def Let_def)
  have d: "deleteGroup g (Some ''future'') (Some []) s = (Success 200 0, s)"
    using ne by (simp add: deleteGroup_def Let_def)
  show ?thesis using a b c d by blast
qed

text \<open>
  The theorem on the group of three: from 2025-02-01 on, two members go, January's and the
  one-off row stay.
\<close>

theorem group_delete_by_scope_witness:
  "distinct (map txId (transactions groupStore)) \<and>
   selectGroup ''g1'' (transactions groupStore) \<noteq> [] \<and>
   deleteGroup ''g1'' (Some ''all'') None groupStore =
     (Success 200 (length (selectGroup ''g1'' (transactions groupStore))),
      groupStore\<lparr>transactions := filter (\<lambda>t. groupId t \<noteq> Some ''g1'') (transactions groupStore)\<rparr>) \<and>
   deleteGroup ''g1'' (Some ''future'') (Some ''2025-02-01'') groupStore =
     (Success 200
        (length (filter (\<lambda>t. ''2025-02-01'' \<le> date t) (selectGroup ''g1'' (transactions groupStore)))),
      groupStore\<lparr>transactions :=
        filter (\<lambda>t. \<not> (groupId t = Some ''g1'' \<and> ''2025-02-01'' \<le> date t))
          (transactions groupStore)\<rparr>) \<and>
   length (filter (\<lambda>t. ''2025-02-01'' \<le> date t) (selectGroup ''g1'' (transactions groupStore))) = 2 \<and>
   filter (\<lambda>t. \<not> (groupId t = Some ''g1'' \<and> ''2025-02-01'' \<le> date t)) (transactions groupStore) =
     [memberRow ''t1'' ''2025-01-31'', coffeeRow]"
proof -
  have h1: "distinct (map txId (transactions groupStore))" by code_simp
  have h2: "selectGroup ''g1'' (transactions groupStore) \<noteq> []" by code_simp
  have x: "''2025-02-01'' \<noteq> []" by simp
  note t = group_delete_by_scope[OF h1 h2, of None "''2025-02-01''"]
  have c1: "deleteGroup ''g1'' (Some ''all'') None groupStore =
     (Success 200 (length (selectGroup ''g1'' (transactions groupStore))),
      groupStore\<lparr>transactions := filter (\<lambda>t. groupId t \<noteq> Some ''g1'') (transactions groupStore)\<rparr>)"
    using t by (elim conjE)
  have c2: "deleteGroup ''g1'' (Some ''future'') (Some ''2025-02-01'') groupStore =
     (Success 200
        (length (filter (\<lambda>t. ''2025-02-01'' \<le> date t) (selectGroup ''g1'' (transactions groupStore)))),
      groupStore\<lparr>transactions :=
        filter (\<lambda>t. \<not> (groupId t = Some ''g1'' \<and> ''2025-02-01'' \<le> date t))
          (transactions groupStore)\<rparr>)"
    using t x by blast
  have c3: "length (filter (\<lambda>t. ''2025-02-01'' \<le> date t) (selectGroup ''g1'' (transactions groupStore))) = 2"
    by code_simp
  have c4: "filter (\<lambda>t. \<not> (groupId t = Some ''g1'' \<and> ''2025-02-01'' \<le> date t)) (transactions groupStore) =
     [memberRow ''t1'' ''2025-01-31'', coffeeRow]"
    by code_simp
  show ?thesis by (intro conjI h1 h2 c1 c2 c3 c4)
qed

section \<open>The invariant of fixed transactions\<close>

lemma recurringLoop_appends:
  "\<exists>new. snd (recurringLoop e rand base gid bd k i tbl created) = tbl @ new \<and>
         (\<forall>t \<in> set new. isFixed t \<and> groupId t = Some gid)"
proof (induction k arbitrary: i tbl created)
  case 0
  show ?case by simp
next
  case (Suc k)
  show ?case
  proof (cases bd)
    case None
    then show ?thesis by simp
  next
    case (Some d)
    let ?row = "recurringRow e rand base gid d i"
    show ?thesis
    proof (cases "insertTransaction ?row tbl")
      case None
      then show ?thesis using Some by simp
    next
      case (Some tbl')
      then have t: "tbl' = tbl @ [?row]"
        by (simp add: insertTransaction_def split: if_splits)
      obtain new where
        n: "snd (recurringLoop e rand base gid bd k (Suc i) tbl'
                  (case getTransaction (rand (Suc i)) tbl' of
                     None \<Rightarrow> created | Some row \<Rightarrow> created @ [row])) = tbl' @ new"
           "\<forall>t \<in> set new. isFixed t \<and> groupId t = Some gid"
        using Suc.IH by blast
      have r: "isFixed ?row \<and> groupId ?row = Some gid" by (simp add: recurringRow_def)
      have "snd (recurringLoop e rand base gid bd (Suc k) i tbl created) = tbl @ (?row # new)"
        using \<open>bd = Some d\<close> Some n(1) t by simp
      moreover have "\<forall>t \<in> set (?row # new). isFixed t \<and> groupId t = Some gid"
        using r n(2) by simp
      ultimately show ?thesis by blast
    qed
  qed
qed

text \<open>
  Claim C6, as the code has it. Whatever the request, the recurring generation only appends
  rows, and every row it appends is fixed and carries the group id of the call; so it keeps
  the invariant that a fixed transaction has a group id.
\<close>

theorem recurring_rows_fixed_with_group:
  "(\<exists>new. transactions (snd (postRecurring e rand body s)) = transactions s @ new \<and>
          (\<forall>t \<in> set new. isFixed t \<and> groupId t = Some (rand 0))) \<and>
   (fixedHaveGroup s \<longrightarrow> fixedHaveGroup (snd (postRecurring e rand body s)))"
proof -
  have a: "\<exists>new. transactions (snd (postRecurring e rand body s)) = transactions s @ new \<and>
          (\<forall>t \<in> set new. isFixed t \<and> groupId t = Some (rand 0))"
  proof (cases "recurringRequestSchema body")
    case (Inl issues)
    then show ?thesis by (simp add: postRecurring_def)
  next
    case (Inr p)
    obtain base n where p: "p = (base, n)" by (cases p)
    obtain new where
      n: "snd (recurringLoop e rand base (rand 0) (parseLocalDate (d_date base)) n 0
               (transactions s) []) = transactions s @ new"
         "\<forall>t \<in> set new. isFixed t \<and> groupId t = Some (rand 0)"
      using recurringLoop_appends by blast
    have "transactions (snd (postRecurring e rand body s)) = transactions s @ new"
      using Inr p n(1)
      by (cases "recurringLoop e rand base (rand 0) (parseLocalDate (d_date base)) n 0
               (transactions s) []")
         (auto simp: postRecurring_def Let_def split: option.splits)
    then show ?thesis using n(2) by blast
  qed
  then obtain new where
    n: "transactions (snd (postRecurring e rand body s)) = transactions s @ new"
       "\<forall>t \<in> set new. isFixed t \<and> groupId t = Some (rand 0)"
    by blast
  have "fixedHaveGroup (snd (postRecurring e rand body s))" if "fixedHaveGroup s"
    using that n unfolding fixedHaveGroup_def by auto
  then show ?thesis using a by blast
qed

text \<open>
  The theorem on the table with a group of three: three more rows, and the invariant holds
  before and after.
\<close>

theorem recurring_rows_fixed_with_group_witness:
  "fixedHaveGroup groupStore \<and>
   fixedHaveGroup (snd (postRecurring exampleEnv exampleUuids (recurringBody rentBase 3) groupStore)) \<and>
   length (transactions
      (snd (postRecurring exampleEnv exampleUuids (recurringBody rentBase 3) groupStore))) = 7"
proof -
  have h: "fixedHaveGroup groupStore" by code_simp
  have l: "length (transactions
      (snd (postRecurring exampleEnv exampleUuids (recurringBody rentBase 3) groupStore))) = 7"
    by code_simp
  have "fixedHaveGroup (snd (postRecurring exampleEnv exampleUuids (recurringBody rentBase 3) groupStore))"
    using recurring_rows_fixed_with_group[of exampleEnv exampleUuids "recurringBody rentBase 3" groupStore] h
    by blast
  then show ?thesis using h l by (intro conjI)
qed

text \<open>
  Where claim C6 fails as it is written: the other operations store what the request says.
  A single create with \<open>isFixed: true\<close> and no group id, a single update that sets
  \<open>isFixed\<close> on a one-off row, a group update that sets \<open>groupId\<close> to null, and an import
  of a fixed transaction without group id each lead from a state with the invariant to a
  state with a fixed transaction whose group id is null.
\<close>

theorem fixed_without_group_counterexample:
  "fixedHaveGroup emptyStore \<and>
   \<not> fixedHaveGroup (snd (postTransaction exampleEnv exampleUuids fixedOneOffBody emptyStore)) \<and>
   fixedHaveGroup groupStore \<and>
   \<not> fixedHaveGroup (snd (putTransaction exampleEnv ''t4'' markFixedBody groupStore)) \<and>
   \<not> fixedHaveGroup (snd (putGroup exampleEnv ''g1'' ungroupBody groupStore)) \<and>
   \<not> fixedHaveGroup (snd (postImport exampleEnv fixedImportBody emptyStore))"
  by code_simp

section \<open>Validation of a single create\<close>

lemma zDate_Some_iff:
  "(\<exists>x. zDate v = Some x) \<longleftrightarrow> (case v of Some (JStr d) \<Rightarrow> dateRegex d | _ \<Rightarrow> False)"
  by (auto simp: zDate_def split: option.splits json.splits)

lemma zPositive_Some_iff:
  "(\<exists>x. zPositive v = Some x) \<longleftrightarrow> (case v of Some (JNum a) \<Rightarrow> 0 < a | _ \<Rightarrow> False)"
  by (auto simp: zPositive_def split: option.splits json.splits)

lemma zNonEmpty_Some_iff:
  "(\<exists>x. zNonEmpty v = Some x) \<longleftrightarrow> (case v of Some (JStr d) \<Rightarrow> d \<noteq> [] | _ \<Rightarrow> False)"
  by (auto simp: zNonEmpty_def Suc_le_eq split: option.splits json.splits)

lemma zTxType_Some_iff:
  "(\<exists>x. zTxType v = Some x) \<longleftrightarrow>
     (case v of Some (JStr t) \<Rightarrow> t = ''expense'' \<or> t = ''income'' \<or> t = ''cc_payment''
      | _ \<Rightarrow> False)"
  by (auto simp: zTxType_def split: option.splits json.splits)

lemma zNullableString_Some_iff:
  "(\<exists>x. zNullableString v = Some x) \<longleftrightarrow>
     (case v of None \<Rightarrow> True | Some JNull \<Rightarrow> True | Some (JStr c) \<Rightarrow> True | _ \<Rightarrow> False)"
  by (auto simp: zNullableString_def split: option.splits json.splits)

lemma zBoolDefaultFalse_Some_iff:
  "(\<exists>x. zBoolDefaultFalse v = Some x) \<longleftrightarrow>
     (case v of None \<Rightarrow> True | Some (JBool b) \<Rightarrow> True | _ \<Rightarrow> False)"
  by (auto simp: zBoolDefaultFalse_def split: option.splits json.splits)

lemma zDate_value: "zDate v = Some x \<Longrightarrow> v = Some (JStr x)"
  by (auto simp: zDate_def split: option.splits json.splits if_splits)

lemma zPositive_value: "zPositive v = Some x \<Longrightarrow> v = Some (JNum x)"
  by (auto simp: zPositive_def split: option.splits json.splits if_splits)

lemma zNonEmpty_value: "zNonEmpty v = Some x \<Longrightarrow> v = Some (JStr x)"
  by (auto simp: zNonEmpty_def split: option.splits json.splits if_splits)

lemma zTxType_value: "zTxType v = Some t \<Longrightarrow> v = Some (JStr (typeName t))"
  by (auto simp: zTxType_def typeName_def split: option.splits json.splits if_splits)

lemma zBoolDefaultFalse_value: "zBoolDefaultFalse v = Some b \<Longrightarrow> b = (v = Some (JBool True))"
  by (auto simp: zBoolDefaultFalse_def split: option.splits json.splits)

lemma zNullableString_value:
  "zNullableString v = Some n \<Longrightarrow>
     orNull n = (case v of Some (JStr c) \<Rightarrow> (if c = [] then None else Some c) | _ \<Rightarrow> None)"
  by (auto simp: zNullableString_def orNull_def split: option.splits json.splits)

lemma object_schema_cases:
  fixes dt :: "'a option" and am :: "'b option" and ca :: "'c option" and de :: "'d option"
    and ty :: "'e option" and fx :: "'f option" and gr :: "'g option"
  shows "(\<exists>r. (case (dt, am, ca, de, ty, fx, gr) of
                 (Some d, Some a, Some c, Some ds, Some t, Some f, Some g) \<Rightarrow> Inr (mk d a c ds t f g)
               | _ \<Rightarrow> Inl (failed k1 dt @ failed k2 am @ failed k3 ca @ failed k4 de @
                           failed k5 ty @ failed k6 fx @ failed k7 gr)) = Inr r) \<longleftrightarrow>
         (\<exists>x. dt = Some x) \<and> (\<exists>x. am = Some x) \<and> (\<exists>x. ca = Some x) \<and> (\<exists>x. de = Some x) \<and>
         (\<exists>x. ty = Some x) \<and> (\<exists>x. fx = Some x) \<and> (\<exists>x. gr = Some x)"
  by (cases dt; cases am; cases ca; cases de; cases ty; cases fx; cases gr) simp_all

lemma transactionSchema_iff:
  "(\<exists>dat. transactionSchema body = Inr dat) \<longleftrightarrow> namedConditions body \<and> optionalsTyped body"
proof (cases body)
  case (JObj kvs)
  show ?thesis
    unfolding JObj transactionSchema_def namedConditions_def optionalsTyped_def json.case Let_def
      object_schema_cases zDate_Some_iff zPositive_Some_iff zNonEmpty_Some_iff zTxType_Some_iff
      zNullableString_Some_iff zBoolDefaultFalse_Some_iff
    by blast
qed (simp_all add: transactionSchema_def namedConditions_def)

lemma transactionSchema_results:
  assumes "transactionSchema (JObj kvs) = Inr dat"
  shows "zDate (field kvs ''date'') = Some (d_date dat) \<and>
         zPositive (field kvs ''amount'') = Some (d_amount dat) \<and>
         zNullableString (field kvs ''categoryId'') = Some (d_categoryId dat) \<and>
         zNonEmpty (field kvs ''description'') = Some (d_description dat) \<and>
         zTxType (field kvs ''type'') = Some (d_type dat) \<and>
         zBoolDefaultFalse (field kvs ''isFixed'') = Some (d_isFixed dat) \<and>
         zNullableString (field kvs ''groupId'') = Some (d_groupId dat)"
  using assms unfolding transactionSchema_def json.case Let_def
  by (cases "zDate (field kvs ''date'')"; cases "zPositive (field kvs ''amount'')";
      cases "zNullableString (field kvs ''categoryId'')";
      cases "zNonEmpty (field kvs ''description'')"; cases "zTxType (field kvs ''type'')";
      cases "zBoolDefaultFalse (field kvs ''isFixed'')";
      cases "zNullableString (field kvs ''groupId'')")
     auto

lemma transactionSchema_issues:
  assumes "transactionSchema body = Inl iss"
  shows "iss \<noteq> [] \<and>
         (case body of JObj kvs \<Rightarrow> (\<forall>i \<in> set iss. propertyIssue i) | _ \<Rightarrow> iss = [[]])"
proof (cases "\<exists>kvs. body = JObj kvs")
  case True
  then obtain kvs where b: "body = JObj kvs" by blast
  have "iss \<noteq> [] \<and> (\<forall>i \<in> set iss. propertyIssue i)"
    using assms unfolding b transactionSchema_def json.case Let_def
    by (cases "zDate (field kvs ''date'')"; cases "zPositive (field kvs ''amount'')";
        cases "zNullableString (field kvs ''categoryId'')";
        cases "zNonEmpty (field kvs ''description'')"; cases "zTxType (field kvs ''type'')";
        cases "zBoolDefaultFalse (field kvs ''isFixed'')";
        cases "zNullableString (field kvs ''groupId'')")
       (auto simp: failed_def propertyIssue_def)
  then show ?thesis by (simp add: b)
next
  case False
  then have "transactionSchema body = Inl [[]]"
    by (cases body) (simp_all add: transactionSchema_def)
  then have "iss = [[]]" using assms by simp
  then show ?thesis using False by (cases body) simp_all
qed

text \<open>
  Claim C8, as the code has it. When the id drawn for the new row is not in the table, POST
  /transactions answers 201 and appends one row exactly when the body passes validation, and
  validation is the four conditions of the claim (date matching YYYY-MM-DD, amount strictly
  positive, description non-empty, type one of expense, income and cc\_payment) together with
  the types of the optional properties. The appended row has the drawn id and holds what the
  body says. For every body that fails validation the answer is 400 with code
  VALIDATION\_ERROR, the store is unchanged, and the details are a non-empty list of issues:
  each on one property of the body, or a single issue on the body itself when the body is not
  an object.
\<close>

theorem create_iff_valid:
  assumes fresh: "rand 0 \<notin> set (map txId (transactions s))"
  shows "((\<exists>row. postTransaction e rand body s =
                   (Success 201 row, s\<lparr>transactions := transactions s @ [row]\<rparr>)) \<longleftrightarrow>
          namedConditions body \<and> optionalsTyped body) \<and>
         (namedConditions body \<and> optionalsTyped body \<longrightarrow>
            (\<exists>row. postTransaction e rand body s =
                      (Success 201 row, s\<lparr>transactions := transactions s @ [row]\<rparr>) \<and>
                    txId row = rand 0 \<and> storedFrom body row)) \<and>
         (\<not> (namedConditions body \<and> optionalsTyped body) \<longrightarrow>
            (\<exists>issues. issues \<noteq> [] \<and>
               (case body of JObj kvs \<Rightarrow> (\<forall>i \<in> set issues. propertyIssue i)
                | _ \<Rightarrow> issues = [[]]) \<and>
               postTransaction e rand body s = (Failure 400 VALIDATION_ERROR issues, s)))"
proof (cases "transactionSchema body")
  case (Inl issues)
  have nv: "\<not> (namedConditions body \<and> optionalsTyped body)"
    using Inl transactionSchema_iff[of body] by auto
  have p: "postTransaction e rand body s = (Failure 400 VALIDATION_ERROR issues, s)"
    using Inl by (simp add: postTransaction_def)
  have i: "issues \<noteq> [] \<and>
           (case body of JObj kvs \<Rightarrow> (\<forall>i \<in> set issues. propertyIssue i) | _ \<Rightarrow> issues = [[]])"
    by (rule transactionSchema_issues[OF Inl])
  have no: "\<not> (\<exists>row. postTransaction e rand body s =
                   (Success 201 row, s\<lparr>transactions := transactions s @ [row]\<rparr>))"
    by (simp add: p)
  show ?thesis using nv p i no by blast
next
  case (Inr dat)
  have v: "namedConditions body \<and> optionalsTyped body"
    using Inr transactionSchema_iff[of body] by auto
  then obtain kvs where b: "body = JObj kvs"
    by (cases body) (simp_all add: namedConditions_def)
  let ?row = "\<lparr>txId = rand 0, date = d_date dat, amount = d_amount dat,
                categoryId = orNull (d_categoryId dat), description = d_description dat,
                ttype = d_type dat, isFixed = d_isFixed dat, groupId = orNull (d_groupId dat),
                createdAt = nowSql e, updatedAt = nowSql e\<rparr>"
  have f: "txId ?row \<notin> set (map txId (transactions s))" using fresh by simp
  have g: "getTransaction (rand 0) (transactions s @ [?row]) = Some ?row"
    using getTransaction_appended[OF f] by simp
  have run: "postTransaction e rand body s =
          (Success 201 ?row, s\<lparr>transactions := transactions s @ [?row]\<rparr>)"
    unfolding postTransaction_def Let_def
    by (simp only: Inr sum.case insertTransaction_fresh[OF f] option.case g)
  note r = transactionSchema_results[OF Inr[unfolded b]]
  have st: "storedFrom body ?row"
    unfolding b storedFrom_def json.case
    using r zDate_value[of "field kvs ''date''" "d_date dat"]
      zPositive_value[of "field kvs ''amount''" "d_amount dat"]
      zNonEmpty_value[of "field kvs ''description''" "d_description dat"]
      zTxType_value[of "field kvs ''type''" "d_type dat"]
      zBoolDefaultFalse_value[of "field kvs ''isFixed''" "d_isFixed dat"]
      zNullableString_value[of "field kvs ''categoryId''" "d_categoryId dat"]
      zNullableString_value[of "field kvs ''groupId''" "d_groupId dat"]
    by simp
  have "\<exists>row. postTransaction e rand body s =
                      (Success 201 row, s\<lparr>transactions := transactions s @ [row]\<rparr>) \<and>
                    txId row = rand 0 \<and> storedFrom body row"
    by (intro exI[of _ ?row] conjI run st) simp
  then show ?thesis using v by blast
qed

text \<open>
  The theorem for a valid body and for a body with a negative amount and an empty
  description.
\<close>

theorem create_iff_valid_witness:
  "exampleUuids 0 \<notin> set (map txId (transactions groupStore)) \<and>
   namedConditions coffeeBody \<and> optionalsTyped coffeeBody \<and>
   (\<exists>row. postTransaction exampleEnv exampleUuids coffeeBody groupStore =
            (Success 201 row, groupStore\<lparr>transactions := transactions groupStore @ [row]\<rparr>) \<and>
          txId row = exampleUuids 0 \<and> storedFrom coffeeBody row) \<and>
   \<not> namedConditions negativeAmountBody \<and>
   (\<exists>issues. issues \<noteq> [] \<and>
      postTransaction exampleEnv exampleUuids negativeAmountBody groupStore =
        (Failure 400 VALIDATION_ERROR issues, groupStore))"
proof -
  have h: "exampleUuids 0 \<notin> set (map txId (transactions groupStore))" by code_simp
  have v: "namedConditions coffeeBody" "optionalsTyped coffeeBody" by code_simp+
  have n: "\<not> namedConditions negativeAmountBody" by code_simp
  have a: "\<exists>row. postTransaction exampleEnv exampleUuids coffeeBody groupStore =
            (Success 201 row, groupStore\<lparr>transactions := transactions groupStore @ [row]\<rparr>) \<and>
          txId row = exampleUuids 0 \<and> storedFrom coffeeBody row"
    using create_iff_valid[where rand = exampleUuids and s = groupStore and e = exampleEnv
        and body = coffeeBody, OF h] v by blast
  have b: "\<exists>issues. issues \<noteq> [] \<and>
      postTransaction exampleEnv exampleUuids negativeAmountBody groupStore =
        (Failure 400 VALIDATION_ERROR issues, groupStore)"
    using create_iff_valid[where rand = exampleUuids and s = groupStore and e = exampleEnv
        and body = negativeAmountBody, OF h] n by blast
  show ?thesis by (intro conjI h v a n b)
qed

text \<open>
  Where claim C8 fails as it is written. A body that meets the four conditions of the claim
  and has \<open>isFixed: "yes"\<close> is answered 400, and nothing is stored; and a body that is not an
  object is answered with one issue on the body itself, not on a field.
\<close>

theorem create_validation_counterexample:
  "namedConditions wrongFlagBody \<and>
   postTransaction exampleEnv exampleUuids wrongFlagBody emptyStore =
     (Failure 400 VALIDATION_ERROR [[Key ''isFixed'']], emptyStore) \<and>
   postTransaction exampleEnv exampleUuids (JStr ''hello'') emptyStore =
     (Failure 400 VALIDATION_ERROR [[]], emptyStore)"
  by code_simp

section \<open>The settings singleton\<close>

lemma settings_table_shape:
  assumes "distinct (map setId tbl)" "list_all (\<lambda>r. setId r = 1) tbl"
  shows "tbl = [] \<or> (\<exists>r. tbl = [r] \<and> setId r = 1)"
proof (cases tbl)
  case Nil
  then show ?thesis by simp
next
  case (Cons r rest)
  show ?thesis
  proof (cases rest)
    case Nil
    then show ?thesis using Cons assms(2) by simp
  next
    case (Cons r' rest')
    then show ?thesis using \<open>tbl = r # rest\<close> assms by auto
  qed
qed

lemma getSettings_empty:
  "settings s = [] \<Longrightarrow>
     getSettings e s = (Success 200 (Some (defaultSettings e)), s\<lparr>settings := [defaultSettings e]\<rparr>)"
  by (simp add: getSettings_def selectSettings_def insertSettings_def defaultSettings_def)

lemma getSettings_one:
  "settings s = [r] \<Longrightarrow> setId r = 1 \<Longrightarrow> getSettings e s = (Success 200 (Some r), s)"
  by (simp add: getSettings_def selectSettings_def)

lemma putSettings_settings:
  assumes "settings s = [] \<or> (\<exists>r. settings s = [r] \<and> setId r = 1)"
  shows "settings (snd (putSettings e body s)) = settings s \<or>
         (\<exists>r. settings (snd (putSettings e body s)) = [r] \<and> setId r = 1)"
proof (cases "settingsUpdateSchema body")
  case (Inl issues)
  then show ?thesis by (simp add: putSettings_def)
next
  case (Inr dat)
  from assms show ?thesis
  proof
    assume "settings s = []"
    then show ?thesis
      using Inr
      by (simp add: putSettings_def selectSettings_def insertSettings_def defaultSettings_def
            updateSettings_def setSettingsFields_def)
  next
    assume "\<exists>r. settings s = [r] \<and> setId r = 1"
    then obtain r where "settings s = [r]" "setId r = 1" by blast
    then show ?thesis
      using Inr
      by (simp add: putSettings_def selectSettings_def updateSettings_def setSettingsFields_def)
  qed
qed

lemma putSettings_valid:
  assumes "settings s = [] \<or> (\<exists>r. settings s = [r] \<and> setId r = 1)"
    and "settingsUpdateSchema body = Inr dat"
  shows "\<exists>r. settings (snd (putSettings e body s)) = [r] \<and> setId r = 1"
  using assms(1)
proof
  assume "settings s = []"
  then show ?thesis
    using assms(2)
    by (simp add: putSettings_def selectSettings_def insertSettings_def defaultSettings_def
          updateSettings_def setSettingsFields_def)
next
  assume "\<exists>r. settings s = [r] \<and> setId r = 1"
  then obtain r where "settings s = [r]" "setId r = 1" by blast
  then show ?thesis
    using assms(2)
    by (simp add: putSettings_def selectSettings_def updateSettings_def setSettingsFields_def)
qed

text \<open>
  Claim C9. On a settings table that obeys its primary key and its check \<open>id = 1\<close>: after
  GET /settings exactly one settings record exists, with id 1, and it is the record the
  reply carries; where none existed it is the record of the defaults. Once exactly one record
  exists, GET /settings changes nothing and PUT /settings, whatever its body, leaves exactly
  one record. A PUT with a valid body also creates the record where none existed.
\<close>

theorem settings_singleton:
  assumes pk: "distinct (map setId (settings s))"
    and chk: "list_all (\<lambda>r. setId r = 1) (settings s)"
  shows "oneSettingsRecord (snd (getSettings e s)) \<and>
         (\<exists>r. fst (getSettings e s) = Success 200 (Some r) \<and>
               settings (snd (getSettings e s)) = [r]) \<and>
         (settings s = [] \<longrightarrow> settings (snd (getSettings e s)) = [defaultSettings e]) \<and>
         (oneSettingsRecord s \<longrightarrow>
            snd (getSettings e s) = s \<and> oneSettingsRecord (snd (putSettings e body s))) \<and>
         (\<forall>dat. settingsUpdateSchema body = Inr dat \<longrightarrow>
            oneSettingsRecord (snd (putSettings e body s)))"
proof -
  have shape: "settings s = [] \<or> (\<exists>r. settings s = [r] \<and> setId r = 1)"
    by (rule settings_table_shape[OF pk chk])
  have one: "oneSettingsRecord t \<longleftrightarrow> (\<exists>r. settings t = [r] \<and> setId r = 1)" for t
    by (auto simp: oneSettingsRecord_def split: list.splits)
  have g: "oneSettingsRecord (snd (getSettings e s)) \<and>
         (\<exists>r. fst (getSettings e s) = Success 200 (Some r) \<and>
               settings (snd (getSettings e s)) = [r]) \<and>
         (settings s = [] \<longrightarrow> settings (snd (getSettings e s)) = [defaultSettings e]) \<and>
         (oneSettingsRecord s \<longrightarrow> snd (getSettings e s) = s)"
    using shape
  proof
    assume e: "settings s = []"
    have n: "\<not> oneSettingsRecord s" using e by (simp add: oneSettingsRecord_def)
    have i: "setId (defaultSettings e) = 1" by (simp add: defaultSettings_def)
    show ?thesis
      using n i by (simp add: getSettings_empty[OF e] oneSettingsRecord_def)
  next
    assume "\<exists>r. settings s = [r] \<and> setId r = 1"
    then obtain r where r: "settings s = [r]" "setId r = 1" by blast
    show ?thesis
      using r by (simp add: getSettings_one[OF r] one)
  qed
  have p1: "oneSettingsRecord (snd (putSettings e body s))" if "oneSettingsRecord s"
    using putSettings_settings[OF shape, of e body] that by (auto simp: one)
  have p2: "oneSettingsRecord (snd (putSettings e body s))"
    if "settingsUpdateSchema body = Inr dat" for dat
    using putSettings_valid[OF shape that, of e] by (simp add: one)
  show ?thesis using g p1 p2 by blast
qed

text \<open>
  The theorem on the empty table: the first read creates the defaults, and a valid and an
  invalid update after it keep the single record.
\<close>

theorem settings_singleton_witness:
  "distinct (map setId (settings emptyStore)) \<and>
   list_all (\<lambda>r. setId r = 1) (settings emptyStore) \<and>
   settings emptyStore = [] \<and>
   settings (snd (getSettings exampleEnv emptyStore)) = [defaultSettings exampleEnv] \<and>
   oneSettingsRecord (snd (getSettings exampleEnv emptyStore)) \<and>
   distinct (map setId (settings (snd (getSettings exampleEnv emptyStore)))) \<and>
   list_all (\<lambda>r. setId r = 1) (settings (snd (getSettings exampleEnv emptyStore))) \<and>
   oneSettingsRecord (snd (putSettings lagosEnv currencyBody (snd (getSettings exampleEnv emptyStore)))) \<and>
   oneSettingsRecord (snd (putSettings lagosEnv badSettingsBody (snd (getSettings exampleEnv emptyStore))))"
proof -
  let ?s1 = "snd (getSettings exampleEnv emptyStore)"
  have h1: "distinct (map setId (settings emptyStore))" by code_simp
  have h2: "list_all (\<lambda>r. setId r = 1) (settings emptyStore)" by code_simp
  have h3: "settings emptyStore = []" by code_simp
  have k1: "distinct (map setId (settings ?s1))" by code_simp
  have k2: "list_all (\<lambda>r. setId r = 1) (settings ?s1)" by code_simp
  note a = settings_singleton[OF h1 h2, of exampleEnv currencyBody]
  have c1: "settings ?s1 = [defaultSettings exampleEnv]" using a h3 by blast
  have c2: "oneSettingsRecord ?s1" using a by blast
  have c3: "oneSettingsRecord (snd (putSettings lagosEnv currencyBody ?s1))"
    using settings_singleton[OF k1 k2, of lagosEnv currencyBody] c2 by blast
  have c4: "oneSettingsRecord (snd (putSettings lagosEnv badSettingsBody ?s1))"
    using settings_singleton[OF k1 k2, of lagosEnv badSettingsBody] c2 by blast
  show ?thesis by (intro conjI h1 h2 h3 c1 c2 k1 k2 c3 c4)
qed

section \<open>The number of months\<close>

lemma field_append_other:
  "k \<noteq> k' \<Longrightarrow> field (kvs @ [(k', v)]) k = field kvs k"
  by (simp add: field_def)

lemma field_append_same:
  "field (kvs @ [(k, v)]) k = Some v"
  by (simp add: field_def)

lemma zMonths_default: "zMonths (Some (JNum 12)) = zMonths None"
  by (simp add: zMonths_def)

lemma zMonthsIssues_default: "zMonthsIssues (Some (JNum 12)) = zMonthsIssues None"
  by (simp add: zMonthsIssues_def)

lemma recurringRequestSchema_default:
  assumes "field kvs ''months'' = None"
  shows "recurringRequestSchema (JObj (kvs @ [(''months'', JNum 12)])) =
         recurringRequestSchema (JObj kvs)"
proof -
  have b: "field (kvs @ [(''months'', JNum 12)]) ''base'' = field kvs ''base''"
    by (rule field_append_other) simp
  show ?thesis
    unfolding recurringRequestSchema_def json.case
    by (simp only: b field_append_same zMonths_default zMonthsIssues_default assms)
qed

lemma zMonths_Some_iff:
  "(\<exists>n. zMonths (Some v) = Some n) \<longleftrightarrow> (\<exists>n. v = JNum (real n) \<and> 1 \<le> n \<and> n \<le> 24)"
proof
  assume "\<exists>n. zMonths (Some v) = Some n"
  then obtain x where x: "v = JNum x" "of_int \<lfloor>x\<rfloor> = x" "1 \<le> x" "x \<le> 24"
    by (auto simp: zMonths_def split: json.splits if_splits)
  let ?n = "nat \<lfloor>x\<rfloor>"
  have p: "0 \<le> \<lfloor>x\<rfloor>" using x(3) by simp
  have "real ?n = x" using x(2) p by (metis of_nat_nat)
  then have v: "v = JNum (real ?n)" using x(1) by simp
  have b: "1 \<le> ?n" "?n \<le> 24" using x(3,4) p by linarith+
  show "\<exists>n. v = JNum (real n) \<and> 1 \<le> n \<and> n \<le> 24"
    by (intro exI[of _ ?n] conjI v b)
next
  assume "\<exists>n. v = JNum (real n) \<and> 1 \<le> n \<and> n \<le> 24"
  then show "\<exists>n. zMonths (Some v) = Some n" by (auto simp: zMonths_def)
qed

lemma recurringRequestSchema_bad_months:
  assumes "field kvs ''months'' = Some v" "zMonths (Some v) = None"
  shows "\<exists>issues. recurringRequestSchema (JObj kvs) = Inl issues"
proof (cases "case field kvs ''base'' of None \<Rightarrow> Inl [[]] | Some b \<Rightarrow> transactionSchema b")
  case (Inl a)
  then show ?thesis
    unfolding recurringRequestSchema_def json.case Let_def by (simp add: assms)
next
  case (Inr b)
  then show ?thesis
    unfolding recurringRequestSchema_def json.case Let_def by (simp add: assms)
qed

text \<open>
  Claim C10. A request without the property \<open>months\<close> is answered, and changes the store,
  exactly as the same request with \<open>months: 12\<close>; for a valid base that names a calendar
  day, and ids that are new and pairwise different, twelve transactions are generated. A
  request whose \<open>months\<close> is present and is not an integer from 1 to 24 is answered 400 with
  code VALIDATION\_ERROR, and the store is unchanged.
\<close>

theorem recurring_months_default_and_range:
  "(field kvs ''months'' = None \<longrightarrow>
      postRecurring e rand (JObj kvs) s =
        postRecurring e rand (JObj (kvs @ [(''months'', JNum 12)])) s) \<and>
   (field kvs ''months'' = None \<and> field kvs ''base'' = Some b \<and>
    transactionSchema b = Inr base \<and> calendarDate (d_date base) \<and>
    distinct (map rand [1..<Suc 12]) \<and>
    set (map rand [1..<Suc 12]) \<inter> set (map txId (transactions s)) = {} \<longrightarrow>
      (\<exists>created. postRecurring e rand (JObj kvs) s =
                   (Success 201 created, s\<lparr>transactions := transactions s @ created\<rparr>) \<and>
                 length created = 12)) \<and>
   (\<forall>v. field kvs ''months'' = Some v \<and>
        \<not> (\<exists>n. v = JNum (real n) \<and> 1 \<le> n \<and> n \<le> 24) \<longrightarrow>
      (\<exists>issues. postRecurring e rand (JObj kvs) s = (Failure 400 VALIDATION_ERROR issues, s)))"
proof (intro conjI impI allI)
  assume "field kvs ''months'' = None"
  then show "postRecurring e rand (JObj kvs) s =
        postRecurring e rand (JObj (kvs @ [(''months'', JNum 12)])) s"
    by (simp add: postRecurring_def recurringRequestSchema_default)
next
  assume a: "field kvs ''months'' = None \<and> field kvs ''base'' = Some b \<and>
    transactionSchema b = Inr base \<and> calendarDate (d_date base) \<and>
    distinct (map rand [1..<Suc 12]) \<and>
    set (map rand [1..<Suc 12]) \<inter> set (map txId (transactions s)) = {}"
  let ?bd = "(yearOf (d_date base), monthOf (d_date base) - 1, dayOf (d_date base))"
  let ?rows = "map (recurringRow e rand base (rand 0) ?bd) [0..<12]"
  have sch: "recurringRequestSchema (JObj kvs) = Inr (base, 12)"
    using a by (simp add: recurringRequestSchema_def zMonths_def)
  have pl: "parseLocalDate (d_date base) = Some ?bd"
    using a by (intro parseLocalDate_calendar) simp
  have ids: "distinct (map rand [1..<Suc 12])"
    and fresh: "set (map rand [1..<Suc 12]) \<inter> set (map txId (transactions s)) = {}"
    using a by blast+
  have run: "postRecurring e rand (JObj kvs) s =
               (Success 201 ?rows, s\<lparr>transactions := transactions s @ ?rows\<rparr>)"
    by (rule postRecurring_fresh[OF sch pl ids fresh])
  have "length ?rows = 12" by simp
  then show "\<exists>created. postRecurring e rand (JObj kvs) s =
                   (Success 201 created, s\<lparr>transactions := transactions s @ created\<rparr>) \<and>
                 length created = 12"
    using run by blast
next
  fix v
  assume a: "field kvs ''months'' = Some v \<and>
        \<not> (\<exists>n. v = JNum (real n) \<and> 1 \<le> n \<and> n \<le> 24)"
  then have "zMonths (Some v) = None"
    using zMonths_Some_iff[of v] by (cases "zMonths (Some v)") auto
  then obtain issues where "recurringRequestSchema (JObj kvs) = Inl issues"
    using recurringRequestSchema_bad_months a by blast
  then show "\<exists>issues. postRecurring e rand (JObj kvs) s = (Failure 400 VALIDATION_ERROR issues, s)"
    by (simp add: postRecurring_def)
qed


text \<open>
  The theorem for the rent base without \<open>months\<close>, and with \<open>months: 25\<close>.
\<close>

theorem recurring_months_default_and_range_witness:
  "field [(''base'', rentBase)] ''months'' = None \<and>
   field [(''base'', rentBase)] ''base'' = Some rentBase \<and>
   transactionSchema rentBase = Inr rentData \<and> calendarDate (d_date rentData) \<and>
   distinct (map exampleUuids [1..<Suc 12]) \<and>
   set (map exampleUuids [1..<Suc 12]) \<inter> set (map txId (transactions groupStore)) = {} \<and>
   postRecurring exampleEnv exampleUuids (JObj [(''base'', rentBase)]) groupStore =
     postRecurring exampleEnv exampleUuids
       (JObj ([(''base'', rentBase)] @ [(''months'', JNum 12)])) groupStore \<and>
   (\<exists>created. postRecurring exampleEnv exampleUuids (JObj [(''base'', rentBase)]) groupStore =
       (Success 201 created, groupStore\<lparr>transactions := transactions groupStore @ created\<rparr>) \<and>
     length created = 12) \<and>
   field [(''base'', rentBase), (''months'', JNum 25)] ''months'' = Some (JNum 25) \<and>
   (\<exists>issues. postRecurring exampleEnv exampleUuids
       (JObj [(''base'', rentBase), (''months'', JNum 25)]) groupStore =
     (Failure 400 VALIDATION_ERROR issues, groupStore))"
proof -
  have h1: "field [(''base'', rentBase)] ''months'' = None" by code_simp
  have h2: "field [(''base'', rentBase)] ''base'' = Some rentBase" by code_simp
  have h3: "transactionSchema rentBase = Inr rentData" by code_simp
  have h4: "calendarDate (d_date rentData)" by code_simp
  have h5: "distinct (map exampleUuids [1..<Suc 12])" by code_simp
  have h6: "set (map exampleUuids [1..<Suc 12]) \<inter> set (map txId (transactions groupStore)) = {}"
    by code_simp
  have h7: "field [(''base'', rentBase), (''months'', JNum 25)] ''months'' = Some (JNum 25)"
    by code_simp
  have h8: "\<not> (\<exists>n. JNum 25 = JNum (real n) \<and> 1 \<le> n \<and> n \<le> 24)"
  proof
    assume "\<exists>n. JNum 25 = JNum (real n) \<and> 1 \<le> n \<and> n \<le> 24"
    then obtain n :: nat where "real n = 25" "n \<le> 24" by auto
    then show False by linarith
  qed
  note a = recurring_months_default_and_range[of "[(''base'', rentBase)]" exampleEnv exampleUuids
             groupStore rentBase rentData]
  note b = recurring_months_default_and_range[of "[(''base'', rentBase), (''months'', JNum 25)]"
             exampleEnv exampleUuids groupStore rentBase rentData]
  have c1: "postRecurring exampleEnv exampleUuids (JObj [(''base'', rentBase)]) groupStore =
     postRecurring exampleEnv exampleUuids
       (JObj ([(''base'', rentBase)] @ [(''months'', JNum 12)])) groupStore"
    using a h1 by blast
  have c2: "\<exists>created. postRecurring exampleEnv exampleUuids (JObj [(''base'', rentBase)]) groupStore =
       (Success 201 created, groupStore\<lparr>transactions := transactions groupStore @ created\<rparr>) \<and>
     length created = 12"
    using a h1 h2 h3 h4 h5 h6 by blast
  have c3: "\<exists>issues. postRecurring exampleEnv exampleUuids
       (JObj [(''base'', rentBase), (''months'', JNum 25)]) groupStore =
     (Failure 400 VALIDATION_ERROR issues, groupStore)"
    using b h7 h8 by blast
  show ?thesis by (intro conjI h1 h2 h3 h4 h5 h6 c1 c2 h7 c3)
qed

section \<open>Export and import\<close>

lemma import_category_of_export:
  "importCategorySchema (jsonOfCategory c) =
     Inr \<lparr>ic_id = catId c, ic_name = name c, ic_weeklyBudget = weeklyBudget c,
          ic_period = cperiod c, ic_color = color c\<rparr>"
  by (cases "cperiod c")
     (simp_all add: importCategorySchema_def jsonOfCategory_def field_def zString_def zNumber_def
        zPeriod_def periodName_def)

lemma import_settings_of_export:
  "importSettingsSchema (jsonOfSettings r) =
     Inr \<lparr>is_monthlyIncome = monthlyIncome r, is_currency = currency r,
          is_showFixedCosts = showFixedCosts r, is_checkingBalance = Some (checkingBalance r),
          is_creditCardBalance = Some (creditCardBalance r),
          is_balanceAsOf = Some (balanceAsOf r)\<rparr>"
  by (simp add: importSettingsSchema_def jsonOfSettings_def field_def zString_def zNumber_def
        zBoolean_def zOptional_def)

lemma import_transaction_of_export:
  "importTransactionSchema (jsonOfTransaction t) =
     (case (categoryId t, groupId t) of
        (Some c, Some g) \<Rightarrow>
          Inr \<lparr>it_id = txId t, it_date = date t, it_amount = amount t, it_categoryId = c,
               it_description = description t, it_type = ttype t, it_isFixed = Some (isFixed t),
               it_groupId = Some g\<rparr>
      | (None, Some g) \<Rightarrow> Inl [[Key ''categoryId'']]
      | (Some c, None) \<Rightarrow> Inl [[Key ''groupId'']]
      | (None, None) \<Rightarrow> Inl [[Key ''categoryId''], [Key ''groupId'']])"
  by (cases "ttype t"; cases "categoryId t"; cases "groupId t")
     (simp_all add: importTransactionSchema_def jsonOfTransaction_def field_def zString_def
        zNumber_def zBoolean_def zOptional_def zTxType_def typeName_def jsonOfNullable_def
        failed_def)


lemma parse_exported_categories:
  "\<exists>ys. parseElements importCategorySchema i (map jsonOfCategory cs) = ([], ys) \<and>
        map ic_id ys = map catId cs"
proof (induction cs arbitrary: i)
  case Nil
  show ?case by simp
next
  case (Cons c cs)
  obtain ys where "parseElements importCategorySchema (Suc i) (map jsonOfCategory cs) = ([], ys)"
    "map ic_id ys = map catId cs"
    using Cons.IH by blast
  then show ?case by (simp add: import_category_of_export)
qed

lemma parse_exported_transactions:
  assumes "list_all (\<lambda>t. categoryId t \<noteq> None \<and> groupId t \<noteq> None) ts"
  shows "\<exists>ys. parseElements importTransactionSchema i (map jsonOfTransaction ts) = ([], ys) \<and>
        map it_id ys = map txId ts"
  using assms
proof (induction ts arbitrary: i)
  case Nil
  show ?case by simp
next
  case (Cons t ts)
  obtain ys where
    ys: "parseElements importTransactionSchema (Suc i) (map jsonOfTransaction ts) = ([], ys)"
    "map it_id ys = map txId ts"
    using Cons by force
  obtain c g where "categoryId t = Some c" "groupId t = Some g"
    using Cons.prems by auto
  then show ?case using ys by (simp add: import_transaction_of_export)
qed

lemma parse_exported_transactions_rejected:
  assumes "\<not> list_all (\<lambda>t. categoryId t \<noteq> None \<and> groupId t \<noteq> None) ts"
  shows "fst (parseElements importTransactionSchema i (map jsonOfTransaction ts)) \<noteq> []"
  using assms
proof (induction ts arbitrary: i)
  case Nil
  then show ?case by simp
next
  case (Cons t ts)
  obtain iss ys where
    p: "parseElements importTransactionSchema (Suc i) (map jsonOfTransaction ts) = (iss, ys)"
    by (cases "parseElements importTransactionSchema (Suc i) (map jsonOfTransaction ts)")
  show ?case
  proof (cases "categoryId t \<noteq> None \<and> groupId t \<noteq> None")
    case True
    then obtain c g where cg: "categoryId t = Some c" "groupId t = Some g" by auto
    have "\<not> list_all (\<lambda>t. categoryId t \<noteq> None \<and> groupId t \<noteq> None) ts"
      using Cons.prems True by simp
    then have "iss \<noteq> []" using Cons.IH[of "Suc i"] p by simp
    then show ?thesis using p cg by (simp add: import_transaction_of_export)
  next
    case False
    then show ?thesis
      using p by (cases "categoryId t"; cases "groupId t")
                 (simp_all add: import_transaction_of_export)
  qed
qed

lemma importCategories_existing:
  "set (map ic_id xs) \<subseteq> set (map catId tbl) \<Longrightarrow> importCategories e xs tbl n = (tbl, n)"
proof (induction xs)
  case Nil
  show ?case by simp
next
  case (Cons c cs)
  have "ic_id c \<in> catId ` set tbl" using Cons.prems by simp
  then have "find (\<lambda>r. catId r = ic_id c) tbl \<noteq> None"
    by (auto simp: find_None_iff)
  then obtain r where "find (\<lambda>r. catId r = ic_id c) tbl = Some r" by blast
  then show ?case using Cons by simp
qed

lemma importTransactions_existing:
  "set (map it_id xs) \<subseteq> set (map txId tbl) \<Longrightarrow> importTransactions e xs tbl n = (tbl, n)"
proof (induction xs)
  case Nil
  show ?case by simp
next
  case (Cons t ts)
  have "it_id t \<in> txId ` set tbl" using Cons.prems by simp
  then have "getTransaction (it_id t) tbl \<noteq> None"
    by (auto simp: getTransaction_def find_None_iff)
  then obtain r where "getTransaction (it_id t) tbl = Some r" by blast
  then show ?case using Cons by simp
qed

lemma export_fields:
  "field (case exportData e s of JObj kvs \<Rightarrow> kvs | _ \<Rightarrow> []) ''categories'' =
     Some (JArr (map jsonOfCategory (categories s)))"
  "field (case exportData e s of JObj kvs \<Rightarrow> kvs | _ \<Rightarrow> []) ''transactions'' =
     Some (JArr (map jsonOfTransaction (transactions s)))"
  "field (case exportData e s of JObj kvs \<Rightarrow> kvs | _ \<Rightarrow> []) ''settings'' =
     map_option jsonOfSettings (selectSettings (settings s))"
  by (cases "selectSettings (settings s)"; simp add: exportData_def field_def)+

lemma importSchema_of_export:
  "importSchema (exportData e s) =
     (let cs = zArray importCategorySchema (Some (JArr (map jsonOfCategory (categories s))));
          ts = zArray importTransactionSchema (Some (JArr (map jsonOfTransaction (transactions s))));
          st = (case map_option jsonOfSettings (selectSettings (settings s)) of
                  None \<Rightarrow> Inl [[]]
                | Some x \<Rightarrow> importSettingsSchema x)
      in case (cs, ts, st) of
           (Inr a, Inr b, Inr c) \<Rightarrow> Inr (a, b, c)
         | _ \<Rightarrow> Inl (under ''categories'' cs @ under ''transactions'' ts @ under ''settings'' st))"
proof -
  obtain kvs where k: "exportData e s = JObj kvs" by (simp add: exportData_def)
  show ?thesis
    using export_fields[of e s] unfolding k importSchema_def json.case by simp
qed


lemma zArray_exported_categories:
  "\<exists>ys. zArray importCategorySchema (Some (JArr (map jsonOfCategory cs))) = Inr ys \<and>
        map ic_id ys = map catId cs"
proof -
  obtain ys where "parseElements importCategorySchema 0 (map jsonOfCategory cs) = ([], ys)"
    "map ic_id ys = map catId cs"
    using parse_exported_categories by blast
  then show ?thesis by (simp add: zArray_def)
qed

lemma zArray_exported_transactions:
  assumes "list_all (\<lambda>t. categoryId t \<noteq> None \<and> groupId t \<noteq> None) ts"
  shows "\<exists>ys. zArray importTransactionSchema (Some (JArr (map jsonOfTransaction ts))) = Inr ys \<and>
        map it_id ys = map txId ts"
proof -
  obtain ys where "parseElements importTransactionSchema 0 (map jsonOfTransaction ts) = ([], ys)"
    "map it_id ys = map txId ts"
    using parse_exported_transactions[OF assms] by blast
  then show ?thesis by (simp add: zArray_def)
qed

lemma zArray_exported_transactions_rejected:
  assumes "\<not> list_all (\<lambda>t. categoryId t \<noteq> None \<and> groupId t \<noteq> None) ts"
  shows "\<exists>iss. zArray importTransactionSchema (Some (JArr (map jsonOfTransaction ts))) = Inl iss"
proof -
  obtain iss ys where
    p: "parseElements importTransactionSchema 0 (map jsonOfTransaction ts) = (iss, ys)"
    by (cases "parseElements importTransactionSchema 0 (map jsonOfTransaction ts)")
  have "iss \<noteq> []"
    using parse_exported_transactions_rejected[OF assms, of 0] p by simp
  then show ?thesis using p by (simp add: zArray_def)
qed

lemma importSettings_of_export:
  assumes "setId r = 1"
  shows "importSettings e
           \<lparr>is_monthlyIncome = monthlyIncome r, is_currency = currency r,
            is_showFixedCosts = showFixedCosts r, is_checkingBalance = Some (checkingBalance r),
            is_creditCardBalance = Some (creditCardBalance r),
            is_balanceAsOf = Some (balanceAsOf r)\<rparr> [r] =
         Some [reimported e r]"
  using assms
  by (simp add: importSettings_def selectSettings_def updateSettings_def numOrZero_def
        strOrNow_def reimported_def)

text \<open>
  Claim C7, as the code has it. Importing the export of a store into that store never changes
  the categories and the transactions. When every transaction has a category and a group id
  and the settings record exists, the import succeeds, skips every id (both counters are 0),
  and rewrites the settings record with its own values, a new \<open>updatedAt\<close>, and the import
  time in place of an empty \<open>balanceAsOf\<close>. Otherwise the import schema, which wants
  \<open>categoryId\<close> a string, \<open>groupId\<close> a string or absent and the settings present, rejects
  the export with 400 and the store is unchanged.
\<close>

theorem export_then_import:
  assumes wf: "wellFormed s"
  shows "categories (snd (postImport e' (exportData e s) s)) = categories s \<and>
         transactions (snd (postImport e' (exportData e s) s)) = transactions s \<and>
         (importable s \<longrightarrow>
            fst (postImport e' (exportData e s) s) = Success 200 (0, 0) \<and>
            settings (snd (postImport e' (exportData e s) s)) = map (reimported e') (settings s)) \<and>
         (\<not> importable s \<longrightarrow>
            (\<exists>issues. postImport e' (exportData e s) s = (Failure 400 VALIDATION_ERROR issues, s)))"
proof (cases "importable s")
  case True
  have shape: "settings s = [] \<or> (\<exists>r. settings s = [r] \<and> setId r = 1)"
    using wf by (intro settings_table_shape) (simp_all add: wellFormed_def)
  then obtain r where r: "settings s = [r]" "setId r = 1"
    using True by (auto simp: importable_def)
  have sel: "selectSettings (settings s) = Some r"
    using r by (simp add: selectSettings_def)
  obtain cs where cs: "zArray importCategorySchema (Some (JArr (map jsonOfCategory (categories s)))) = Inr cs"
    "map ic_id cs = map catId (categories s)"
    using zArray_exported_categories by blast
  obtain ts where ts: "zArray importTransactionSchema (Some (JArr (map jsonOfTransaction (transactions s)))) = Inr ts"
    "map it_id ts = map txId (transactions s)"
    using zArray_exported_transactions True by (auto simp: importable_def)
  let ?st = "\<lparr>is_monthlyIncome = monthlyIncome r, is_currency = currency r,
            is_showFixedCosts = showFixedCosts r, is_checkingBalance = Some (checkingBalance r),
            is_creditCardBalance = Some (creditCardBalance r),
            is_balanceAsOf = Some (balanceAsOf r)\<rparr>"
  have sch: "importSchema (exportData e s) = Inr (cs, ts, ?st)"
    by (simp add: importSchema_of_export cs(1) ts(1) sel import_settings_of_export)
  have ic: "importCategories e' cs (categories s) 0 = (categories s, 0)"
    by (rule importCategories_existing) (simp add: cs(2))
  have it: "importTransactions e' ts (transactions s) 0 = (transactions s, 0)"
    by (rule importTransactions_existing) (simp add: ts(2))
  have is': "importSettings e' ?st (settings s) = Some (map (reimported e') (settings s))"
    using importSettings_of_export[OF r(2), of e'] by (simp add: r(1))
  have "postImport e' (exportData e s) s =
          (Success 200 (0, 0), s\<lparr>categories := categories s, transactions := transactions s,
                                 settings := map (reimported e') (settings s)\<rparr>)"
    unfolding postImport_def by (simp only: sch sum.case prod.case ic it is' option.case)
  then show ?thesis using True by simp
next
  case False
  have "\<exists>issues. importSchema (exportData e s) = Inl issues"
  proof (cases "list_all (\<lambda>t. categoryId t \<noteq> None \<and> groupId t \<noteq> None) (transactions s)")
    case True
    then have "settings s = []" using False by (simp add: importable_def)
    then have sel: "selectSettings (settings s) = None" by (simp add: selectSettings_def)
    obtain cs where cs: "zArray importCategorySchema (Some (JArr (map jsonOfCategory (categories s)))) = Inr cs"
      using zArray_exported_categories by blast
    obtain ts where ts: "zArray importTransactionSchema (Some (JArr (map jsonOfTransaction (transactions s)))) = Inr ts"
      using zArray_exported_transactions[OF True] by blast
    show ?thesis by (simp add: importSchema_of_export cs ts sel)
  next
    case False
    obtain iss where i: "zArray importTransactionSchema (Some (JArr (map jsonOfTransaction (transactions s)))) = Inl iss"
      using zArray_exported_transactions_rejected[OF False] by blast
    obtain cs where cs: "zArray importCategorySchema (Some (JArr (map jsonOfCategory (categories s)))) = Inr cs"
      using zArray_exported_categories by blast
    show ?thesis by (simp add: importSchema_of_export cs i)
  qed
  then obtain issues where "importSchema (exportData e s) = Inl issues" by blast
  then have "postImport e' (exportData e s) s = (Failure 400 VALIDATION_ERROR issues, s)"
    by (simp add: postImport_def)
  then show ?thesis using False by simp
qed

text \<open>
  The theorem on a store with a group of two, and on a store with a one-off transaction.
\<close>

theorem export_then_import_witness:
  "wellFormed backupStore \<and> importable backupStore \<and>
   categories (snd (postImport lagosEnv (exportData exampleEnv backupStore) backupStore)) =
     categories backupStore \<and>
   transactions (snd (postImport lagosEnv (exportData exampleEnv backupStore) backupStore)) =
     transactions backupStore \<and>
   fst (postImport lagosEnv (exportData exampleEnv backupStore) backupStore) = Success 200 (0, 0) \<and>
   settings (snd (postImport lagosEnv (exportData exampleEnv backupStore) backupStore)) =
     map (reimported lagosEnv) (settings backupStore) \<and>
   wellFormed oneOffStore \<and> \<not> importable oneOffStore \<and>
   (\<exists>issues. postImport lagosEnv (exportData exampleEnv oneOffStore) oneOffStore =
      (Failure 400 VALIDATION_ERROR issues, oneOffStore))"
proof -
  have h1: "wellFormed backupStore" by code_simp
  have h2: "importable backupStore" by code_simp
  have h3: "wellFormed oneOffStore" by code_simp
  have h4: "\<not> importable oneOffStore" by code_simp
  note a = export_then_import[OF h1, of lagosEnv exampleEnv]
  note b = export_then_import[OF h3, of lagosEnv exampleEnv]
  have c1: "categories (snd (postImport lagosEnv (exportData exampleEnv backupStore) backupStore)) =
     categories backupStore" using a by blast
  have c2: "transactions (snd (postImport lagosEnv (exportData exampleEnv backupStore) backupStore)) =
     transactions backupStore" using a by blast
  have c3: "fst (postImport lagosEnv (exportData exampleEnv backupStore) backupStore) = Success 200 (0, 0)"
    using a h2 by blast
  have c4: "settings (snd (postImport lagosEnv (exportData exampleEnv backupStore) backupStore)) =
     map (reimported lagosEnv) (settings backupStore)" using a h2 by blast
  have c5: "\<exists>issues. postImport lagosEnv (exportData exampleEnv oneOffStore) oneOffStore =
      (Failure 400 VALIDATION_ERROR issues, oneOffStore)" using b h4 by blast
  show ?thesis by (intro conjI h1 h2 c1 c2 c3 c4 h3 h4 c5)
qed

text \<open>
  Where claim C7 fails as it is written: the export of a store with a one-off transaction
  (null category and group id) does not pass the import schema, nor does the export of a store
  without settings record; and a successful import stamps the settings record anew.
\<close>

theorem export_then_import_counterexample:
  "postImport lagosEnv (exportData exampleEnv oneOffStore) oneOffStore =
     (Failure 400 VALIDATION_ERROR
        [[Key ''transactions'', Idx 0, Key ''categoryId''],
         [Key ''transactions'', Idx 0, Key ''groupId'']],
      oneOffStore) \<and>
   fst (postImport lagosEnv (exportData exampleEnv emptyStore) emptyStore) =
     Failure 400 VALIDATION_ERROR [[Key ''settings'']] \<and>
   map setUpdatedAt (settings backupStore) = [''2025-06-01 12:00:00''] \<and>
   map setUpdatedAt
     (settings (snd (postImport lagosEnv (exportData exampleEnv backupStore) backupStore))) =
     [''2025-06-01T12:00:00.000Z'']"
  by code_simp

end
